theory Spec2Isabelle
  imports Complex_Main
begin

section \<open>Tables: cells, rows and data frames\<close>

text \<open>
  The scripts work on pandas data frames. A cell of a frame read from a spreadsheet is a
  number, the absent marker (NaN) or a string. Floating-point numbers are modelled as
  real numbers; a non-finite result (a division by zero) is modelled as \<open>NaN\<close>.
  A row gives a cell for every column name; the frame records which columns exist.
\<close>

datatype cell = Num real | NaN | Str string

type_synonym row = "string \<Rightarrow> cell"

record frame =
  columns :: "string list"
  rws :: "row list"

datatype error = KeyError | TypeError | LogOfNonPositive

text \<open>\<open>pd.to_numeric(col, errors='coerce')\<close>: a number stays, a string is parsed, and a
  string that is no number becomes NaN. The parser of numerals is a parameter.\<close>

fun to_numeric :: "(string \<Rightarrow> real option) \<Rightarrow> cell \<Rightarrow> cell" where
  "to_numeric parse (Num x) = Num x"
| "to_numeric parse NaN = NaN"
| "to_numeric parse (Str s) = (case parse s of Some x \<Rightarrow> Num x | None \<Rightarrow> NaN)"

fun isna :: "cell \<Rightarrow> bool" where
  "isna NaN = True"
| "isna (Num x) = False"
| "isna (Str s) = False"

fun is_str :: "cell \<Rightarrow> bool" where
  "is_str (Str s) = True"
| "is_str (Num x) = False"
| "is_str NaN = False"

text \<open>Comparisons of a column with a number. A comparison with NaN is false. The columns
  compared in the scripts are numeric (coerced before), so the string case, where pandas
  raises, is not reached; it is false here.\<close>

fun cell_gt :: "cell \<Rightarrow> real \<Rightarrow> bool" where
  "cell_gt (Num x) y = (x > y)"
| "cell_gt NaN y = False"
| "cell_gt (Str s) y = False"

fun cell_ge :: "cell \<Rightarrow> real \<Rightarrow> bool" where
  "cell_ge (Num x) y = (x \<ge> y)"
| "cell_ge NaN y = False"
| "cell_ge (Str s) y = False"

fun cell_lt :: "cell \<Rightarrow> real \<Rightarrow> bool" where
  "cell_lt (Num x) y = (x < y)"
| "cell_lt NaN y = False"
| "cell_lt (Str s) y = False"

fun cell_le :: "cell \<Rightarrow> cell \<Rightarrow> bool" where
  "cell_le (Num x) (Num y) = (x \<le> y)"
| "cell_le (Num x) NaN = False"
| "cell_le (Num x) (Str s) = False"
| "cell_le NaN c = False"
| "cell_le (Str s) c = False"

text \<open>Division of two float cells; a zero divisor gives a non-finite value.\<close>

fun cell_div :: "cell \<Rightarrow> cell \<Rightarrow> cell" where
  "cell_div (Num a) (Num b) = (if b = 0 then NaN else Num (a / b))"
| "cell_div (Num a) NaN = NaN"
| "cell_div (Num a) (Str s) = NaN"
| "cell_div NaN c = NaN"
| "cell_div (Str s) c = NaN"

text \<open>\<open>col ** 2\<close>.\<close>

fun cell_pow2 :: "cell \<Rightarrow> cell" where
  "cell_pow2 (Num x) = Num (x ^ 2)"
| "cell_pow2 NaN = NaN"
| "cell_pow2 (Str s) = NaN"

text \<open>\<open>np.log\<close> of a cell. numpy answers a non-positive argument with a warning and a
  non-finite value; the model makes that an outcome of its own, so that a statement that
  the logarithm of a non-positive number is never taken can be proved.\<close>

fun np_log :: "cell \<Rightarrow> error + cell" where
  "np_log (Num x) = (if x > 0 then Inr (Num (ln x)) else Inl LogOfNonPositive)"
| "np_log NaN = Inr NaN"
| "np_log (Str s) = Inl TypeError"

definition has_col :: "frame \<Rightarrow> string \<Rightarrow> bool" where
  "has_col df c = (c \<in> set (columns df))"

definition add_col :: "string \<Rightarrow> string list \<Rightarrow> string list" where
  "add_col c cs = (if c \<in> set cs then cs else cs @ [c])"

text \<open>\<open>df[c] = f(row)\<close>: a column is set (added when new) from the rows.\<close>

definition assign :: "string \<Rightarrow> (row \<Rightarrow> cell) \<Rightarrow> frame \<Rightarrow> frame" where
  "assign c f df =
     \<lparr>columns = add_col c (columns df), rws = map (\<lambda>r. r(c := f r)) (rws df)\<rparr>"

text \<open>\<open>df.dropna(subset=cs)\<close>.\<close>

definition dropna :: "string list \<Rightarrow> frame \<Rightarrow> frame" where
  "dropna cs df =
     \<lparr>columns = columns df, rws = filter (\<lambda>r. list_all (\<lambda>c. \<not> isna (r c)) cs) (rws df)\<rparr>"

text \<open>\<open>df[mask]\<close>.\<close>

definition keep :: "(row \<Rightarrow> bool) \<Rightarrow> frame \<Rightarrow> frame" where
  "keep p df = \<lparr>columns = columns df, rws = filter p (rws df)\<rparr>"

text \<open>\<open>df[c] = pd.to_numeric(df[c], errors='coerce')\<close>.\<close>

definition coerce_col :: "(string \<Rightarrow> real option) \<Rightarrow> string \<Rightarrow> frame \<Rightarrow> frame" where
  "coerce_col parse c df = assign c (\<lambda>r. to_numeric parse (r c)) df"

definition column :: "string \<Rightarrow> frame \<Rightarrow> cell list" where
  "column c df = map (\<lambda>r. r c) (rws df)"

text \<open>\<open>df[c] = np.log(df[src])\<close>, row by row.\<close>

fun log_rows :: "string \<Rightarrow> string \<Rightarrow> row list \<Rightarrow> error + row list" where
  "log_rows src dst [] = Inr []"
| "log_rows src dst (r # rs) =
     (case np_log (r src) of
        Inl e \<Rightarrow> Inl e
      | Inr v \<Rightarrow>
          (case log_rows src dst rs of
             Inl e \<Rightarrow> Inl e
           | Inr rs' \<Rightarrow> Inr (r(dst := v) # rs')))"

definition log_column :: "string \<Rightarrow> string \<Rightarrow> frame \<Rightarrow> error + frame" where
  "log_column src dst df =
     (case log_rows src dst (rws df) of
        Inl e \<Rightarrow> Inl e
      | Inr rs \<Rightarrow> Inr \<lparr>columns = add_col dst (columns df), rws = rs\<rparr>)"

text \<open>The minimum and maximum of a column, as pandas computes them: NaN cells are
  skipped, and a column without a number has the minimum NaN.\<close>

fun nums :: "cell list \<Rightarrow> real list" where
  "nums [] = []"
| "nums (Num x # cs) = x # nums cs"
| "nums (NaN # cs) = nums cs"
| "nums (Str s # cs) = nums cs"

definition col_min :: "cell list \<Rightarrow> cell" where
  "col_min cs = (case nums cs of [] \<Rightarrow> NaN | x # xs \<Rightarrow> Num (fold min xs x))"

definition col_max :: "cell list \<Rightarrow> cell" where
  "col_max cs = (case nums cs of [] \<Rightarrow> NaN | x # xs \<Rightarrow> Num (fold max xs x))"

section \<open>Regression and the turning-point test\<close>

text \<open>
  The fit itself is statsmodels' \<open>smf.ols(formula, data=df).fit()\<close>: a parameter \<open>ols\<close>
  that returns the fitted coefficients by regressor name, or nothing when the fit raises.
  A report block is the text the scripts build; the model keeps its parts.
\<close>

type_synonym params = "(string \<times> real) list"

type_synonym fit = "string \<Rightarrow> frame \<Rightarrow> params option"

datatype item =
    Title string
  | Summary params
  | UTest real cell bool
  | UTestResults real real cell cell cell bool
  | UTestShape string cell
  | RegressionFailed
  | NotEnoughData

text \<open>\<open>tp = -b1 / (2*b2) if b2 != 0 else 0\<close>\<close>

definition turning_point :: "real \<Rightarrow> real \<Rightarrow> cell" where
  "turning_point b1 b2 = (if b2 \<noteq> 0 then cell_div (Num (- b1)) (Num (2 * b2)) else Num 0)"

text \<open>\<open>min_etr <= tp <= max_etr\<close>\<close>

definition in_range :: "cell \<Rightarrow> cell \<Rightarrow> cell \<Rightarrow> bool" where
  "in_range min_etr tp max_etr = (cell_le min_etr tp \<and> cell_le tp max_etr)"

text \<open>\<open>run_regression\<close> of Germany_Baseline_Tax_Study.py. \<open>model.params['ETR']\<close> and
  \<open>df['ETR']\<close> raise KeyError on a missing name; the \<open>except\<close> turns every exception
  into the failure line.\<close>

definition run_regression_de :: "fit \<Rightarrow> frame \<Rightarrow> string \<Rightarrow> string \<Rightarrow> item list" where
  "run_regression_de ols df formula title =
     (case ols formula df of
        None \<Rightarrow> [Title title, RegressionFailed]
      | Some ps \<Rightarrow>
          (if map_of ps ''ETR_sq'' \<noteq> None then
             (case (map_of ps ''ETR'', map_of ps ''ETR_sq'') of
                (Some b1, Some b2) \<Rightarrow>
                  (if has_col df ''ETR'' then
                     (let tp = turning_point b1 b2;
                          min_etr = col_min (column ''ETR'' df);
                          max_etr = col_max (column ''ETR'' df);
                          is_valid = in_range min_etr tp max_etr
                      in [Title title, Summary ps, UTest b2 tp is_valid])
                   else [Title title, Summary ps, RegressionFailed])
              | _ \<Rightarrow> [Title title, Summary ps, RegressionFailed])
           else [Title title, Summary ps]))"

text \<open>\<open>run_regression\<close> of Italy_Baseline_Tax_Study.py: fewer than 5 rows are not
  fitted, and a missing coefficient is read as 0 (\<open>model.params.get('ETR', 0)\<close>).\<close>

definition params_get :: "params \<Rightarrow> string \<Rightarrow> real \<Rightarrow> real" where
  "params_get ps k d = (case map_of ps k of Some v \<Rightarrow> v | None \<Rightarrow> d)"

definition run_regression_it :: "fit \<Rightarrow> frame \<Rightarrow> string \<Rightarrow> string \<Rightarrow> item list" where
  "run_regression_it ols df formula title =
     (if length (rws df) < 5 then [Title title, NotEnoughData]
      else
        (case ols formula df of
           None \<Rightarrow> [Title title, RegressionFailed]
         | Some ps \<Rightarrow>
             (if map_of ps ''ETR_sq'' \<noteq> None then
                (let b1 = params_get ps ''ETR'' 0;
                     b2 = params_get ps ''ETR_sq'' 0
                 in if has_col df ''ETR'' then
                      (let tp = turning_point b1 b2;
                           min_etr = col_min (column ''ETR'' df);
                           max_etr = col_max (column ''ETR'' df);
                           is_valid = in_range min_etr tp max_etr
                       in [Title title, Summary ps, UTestResults b1 b2 tp min_etr max_etr is_valid])
                    else [Title title, Summary ps, RegressionFailed])
              else [Title title, Summary ps])))"

text \<open>\<open>Analyzer.run_regression\<close> of analysis_script.py: fewer than 5 rows are not
  fitted; the U-test line carries the shape and the turning point.\<close>

definition shape_of :: "real \<Rightarrow> string" where
  "shape_of b2 = (if b2 < 0 then ''Inverted U'' else ''U-Shape'')"

definition run_regression_an :: "fit \<Rightarrow> frame \<Rightarrow> string \<Rightarrow> string \<Rightarrow> item list" where
  "run_regression_an ols df formula title =
     (if length (rws df) < 5 then [Title title, NotEnoughData]
      else
        (case ols formula df of
           None \<Rightarrow> [Title title, RegressionFailed]
         | Some ps \<Rightarrow>
             (if map_of ps ''ETR_sq'' \<noteq> None then
                (case (map_of ps ''ETR'', map_of ps ''ETR_sq'') of
                   (Some b1, Some b2) \<Rightarrow>
                     (let tp = turning_point b1 b2;
                          shape = shape_of b2
                      in [Title title, Summary ps, UTestShape shape tp])
                 | _ \<Rightarrow> [Title title, Summary ps, RegressionFailed])
              else [Title title, Summary ps])))"

section \<open>Building the analysis bases\<close>

definition controls :: "string list" where
  "controls = [''employees'', ''tangible_assets'', ''related_revenues'']"

text \<open>Base 1 of Germany_Baseline_Tax_Study.py and Italy_Baseline_Tax_Study.py (the two
  scripts share the text): listwise deletion on profit and tax, positive profits, the
  ETR and its window, then the regression variables. \<open>dropna\<close> raises KeyError when a
  column of its subset is missing.\<close>

definition build_base1 :: "real \<Rightarrow> real \<Rightarrow> frame \<Rightarrow> string \<Rightarrow> error + frame" where
  "build_base1 etr_min etr_max df tax_col =
     (if \<not> (has_col df ''profit_before_tax'' \<and> has_col df tax_col) then Inl KeyError
      else
        (let gb1 = dropna [''profit_before_tax'', tax_col] df;
             gb1 = keep (\<lambda>r. cell_gt (r ''profit_before_tax'') 0) gb1;
             gb1 = assign ''ETR'' (\<lambda>r. cell_div (r tax_col) (r ''profit_before_tax'')) gb1;
             gb1 = keep (\<lambda>r. cell_ge (r ''ETR'') etr_min \<and> cell_lt (r ''ETR'') etr_max) gb1
         in case log_column ''profit_before_tax'' ''ln_profits'' gb1 of
              Inl e \<Rightarrow> Inl e
            | Inr gb1 \<Rightarrow> Inr (assign ''ETR_sq'' (\<lambda>r. cell_pow2 (r ''ETR'')) gb1)))"

text \<open>The loop over the controls of Base 2: keep the rows where the control is positive,
  take its logarithm, and append its name to the returned list.\<close>

fun log_controls :: "string list \<Rightarrow> frame \<Rightarrow> string list \<Rightarrow> error + frame \<times> string list" where
  "log_controls [] gb2 logged_controls = Inr (gb2, logged_controls)"
| "log_controls (c # cs) gb2 logged_controls =
     (case log_column c (''ln_'' @ c) (keep (\<lambda>r. cell_gt (r c) 0) gb2) of
        Inl e \<Rightarrow> Inl e
      | Inr gb2' \<Rightarrow> log_controls cs gb2' (logged_controls @ [''ln_'' @ c]))"

definition build_base2 ::
  "real \<Rightarrow> real \<Rightarrow> frame \<Rightarrow> string \<Rightarrow> string list \<Rightarrow> error + frame \<times> string list" where
  "build_base2 etr_min etr_max df tax_col valid_controls =
     (if \<not> (has_col df ''profit_before_tax'' \<and> has_col df tax_col) then Inl KeyError
      else
        (let gb2 = dropna ([''profit_before_tax'', tax_col] @ valid_controls) df;
             gb2 = keep (\<lambda>r. cell_gt (r ''profit_before_tax'') 0) gb2;
             gb2 = assign ''ETR'' (\<lambda>r. cell_div (r tax_col) (r ''profit_before_tax'')) gb2;
             gb2 = keep (\<lambda>r. cell_ge (r ''ETR'') etr_min \<and> cell_lt (r ''ETR'') etr_max) gb2
         in case log_column ''profit_before_tax'' ''ln_profits'' gb2 of
              Inl e \<Rightarrow> Inl e
            | Inr gb2 \<Rightarrow>
                log_controls valid_controls
                  (assign ''ETR_sq'' (\<lambda>r. cell_pow2 (r ''ETR'')) gb2) []))"

text \<open>\<open>create_global_clean_bases\<close> of Germany_Baseline_Tax_Study.py, with
  \<open>ETR_MIN = 0.0\<close> and \<open>ETR_MAX = 0.5\<close>. The function assigns the coerced columns to
  the frame it is given, so the frame after the call is part of the result.\<close>

definition create_global_clean_bases_de ::
  "(string \<Rightarrow> real option) \<Rightarrow> frame \<Rightarrow> string \<Rightarrow> error + frame \<times> frame \<times> frame \<times> string list" where
  "create_global_clean_bases_de parse df tax_col =
     (if \<not> (has_col df ''profit_before_tax'' \<and> has_col df tax_col) then Inl KeyError
      else
        (let df1 = fold (coerce_col parse) [''profit_before_tax'', tax_col] df
         in case build_base1 0 0.5 df1 tax_col of
              Inl e \<Rightarrow> Inl e
            | Inr gb1 \<Rightarrow>
                (let valid_controls = filter (has_col df1) controls;
                     df2 = fold (coerce_col parse) valid_controls df1
                 in case build_base2 0 0.5 df2 tax_col valid_controls of
                      Inl e \<Rightarrow> Inl e
                    | Inr (gb2, logged_controls) \<Rightarrow> Inr (df2, gb1, gb2, logged_controls))))"

text \<open>\<open>create_global_clean_bases\<close> of Italy_Baseline_Tax_Study.py, with
  \<open>ETR_MIN = 0.0\<close> and \<open>ETR_MAX = 1.0\<close>: all coercions come first, each guarded by
  the presence of its column.\<close>

definition create_global_clean_bases_it ::
  "(string \<Rightarrow> real option) \<Rightarrow> frame \<Rightarrow> string \<Rightarrow> error + frame \<times> frame \<times> frame \<times> string list" where
  "create_global_clean_bases_it parse df tax_col =
     (let df1 = fold (coerce_col parse) (filter (has_col df) [''profit_before_tax'', tax_col]) df;
          valid_controls = filter (has_col df1) controls;
          df2 = fold (coerce_col parse) valid_controls df1
      in case build_base1 0 1 df2 tax_col of
           Inl e \<Rightarrow> Inl e
         | Inr gb1 \<Rightarrow>
             (case build_base2 0 1 df2 tax_col valid_controls of
                Inl e \<Rightarrow> Inl e
              | Inr (gb2, logged_controls) \<Rightarrow> Inr (df2, gb1, gb2, logged_controls)))"

text \<open>\<open>Analyzer.prepare_datasets\<close> of analysis_script.py. The frame was cleaned and
  coerced by the cleaner before. A control is used when its column exists and more than
  5 rows of Base 1 have it positive. The result \<open>None\<close> is the triple of \<open>None\<close>s
  returned when the tax column is missing.\<close>

fun log_valid_controls :: "string list \<Rightarrow> frame \<Rightarrow> error + frame" where
  "log_valid_controls [] base2 = Inr base2"
| "log_valid_controls (ctrl # cs) base2 =
     (case log_column ctrl (''ln_'' @ ctrl) (keep (\<lambda>r. cell_gt (r ctrl) 0) base2) of
        Inl e \<Rightarrow> Inl e
      | Inr base2' \<Rightarrow> log_valid_controls cs base2')"

definition count_positive :: "string \<Rightarrow> frame \<Rightarrow> nat" where
  "count_positive ctrl df = length (filter (\<lambda>r. cell_gt (r ctrl) 0) (rws df))"

definition prepare_datasets ::
  "frame \<Rightarrow> string \<Rightarrow> error + (frame \<times> frame \<times> string list) option" where
  "prepare_datasets df tax_col =
     (if \<not> has_col df tax_col then Inr None
      else if \<not> has_col df ''profit_before_tax'' then Inl KeyError
      else
        (let base1 = dropna [''profit_before_tax'', tax_col] df;
             base1 = assign ''ETR'' (\<lambda>r. cell_div (r tax_col) (r ''profit_before_tax'')) base1;
             base1 = keep (\<lambda>r. cell_gt (r ''profit_before_tax'') 0 \<and>
                                cell_ge (r ''ETR'') 0 \<and> cell_lt (r ''ETR'') 0.5) base1
         in case log_column ''profit_before_tax'' ''ln_profits'' base1 of
              Inl e \<Rightarrow> Inl e
            | Inr base1 \<Rightarrow>
                (let base1 = assign ''ETR_sq'' (\<lambda>r. cell_pow2 (r ''ETR'')) base1;
                     base2 = base1;
                     valid_controls =
                       filter (\<lambda>ctrl. has_col base2 ctrl \<and> count_positive ctrl base2 > 5) controls;
                     base2 = dropna valid_controls base2
                 in case log_valid_controls valid_controls base2 of
                      Inl e \<Rightarrow> Inl e
                    | Inr base2 \<Rightarrow> Inr (Some (base1, base2, valid_controls)))))"

section \<open>The comprehensive study: complete cases and imputation\<close>

text \<open>
  \<open>prepare_data_and_analyze\<close> of Italy_Comprehensive_Tax_Study.py. The imputer is
  scikit-learn's \<open>IterativeImputer\<close>: a parameter that is given its settings and the
  table and returns the rows of the completed table.
\<close>

record imputer_cfg =
  min_value :: real
  max_iter :: nat
  random_state :: nat

type_synonym imputer = "imputer_cfg \<Rightarrow> frame \<Rightarrow> row list"

text \<open>\<open>data[cols]\<close>\<close>

definition select_cols :: "string list \<Rightarrow> frame \<Rightarrow> frame" where
  "select_cols cs df =
     \<lparr>columns = cs, rws = map (\<lambda>r c. if c \<in> set cs then r c else NaN) (rws df)\<rparr>"

text \<open>\<open>data[cs] = data[cs].replace(0, np.nan)\<close>\<close>

definition replace_zero :: "string list \<Rightarrow> frame \<Rightarrow> frame" where
  "replace_zero cs df =
     \<lparr>columns = columns df,
      rws = map (\<lambda>r c. if c \<in> set cs \<and> r c = Num 0 then NaN else r c) (rws df)\<rparr>"

fun log_all :: "string list \<Rightarrow> frame \<Rightarrow> error + frame" where
  "log_all [] data = Inr data"
| "log_all (c # cs) data =
     (case log_column c (''ln_'' @ c) data of
        Inl e \<Rightarrow> Inl e
      | Inr data' \<Rightarrow> log_all cs data')"

text \<open>The part of the function after the method: the standard filters and the
  logarithms, with \<open>ETR_MIN = 0.0\<close> and \<open>ETR_MAX = 0.5\<close>.\<close>

definition standard_filters :: "frame \<Rightarrow> string \<Rightarrow> error + frame option \<times> string" where
  "standard_filters data tax_col =
     (let data = keep (\<lambda>r. cell_gt (r ''profit_before_tax'') 0) data;
          data = assign ''ETR'' (\<lambda>r. cell_div (r tax_col) (r ''profit_before_tax'')) data;
          data = keep (\<lambda>r. cell_ge (r ''ETR'') 0 \<and> cell_lt (r ''ETR'') 0.5) data;
          data = fold (\<lambda>c d. keep (\<lambda>r. cell_gt (r c) 0) d) (''profit_before_tax'' # controls) data
      in case log_column ''profit_before_tax'' ''ln_profits'' data of
           Inl e \<Rightarrow> Inl e
         | Inr data \<Rightarrow>
             (case log_all controls data of
                Inl e \<Rightarrow> Inl e
              | Inr data \<Rightarrow> Inr (Some (assign ''ETR_sq'' (\<lambda>r. cell_pow2 (r ''ETR'')) data), [])))"

text \<open>The table before the method is applied: the rows of the target country, the columns
  of interest, and zeros in the control columns turned into NaN.\<close>

definition candidate_table :: "frame \<Rightarrow> string \<Rightarrow> frame" where
  "candidate_table df tax_col =
     (let cols = [''profit_before_tax'', tax_col] @ controls;
          data = keep (\<lambda>r. r ''upe_name'' = Str ''Italy'') df;
          data = select_cols cols data
      in replace_zero controls data)"

text \<open>\<open>data.dropna()\<close>: listwise deletion over all columns of the table.\<close>

definition complete_cases :: "frame \<Rightarrow> frame" where
  "complete_cases data = dropna (columns data) data"

definition imputer_settings :: imputer_cfg where
  "imputer_settings = \<lparr>min_value = 0.1, max_iter = 20, random_state = 42\<rparr>"

definition prepare_data_and_analyze ::
  "imputer \<Rightarrow> frame \<Rightarrow> string \<Rightarrow> string \<Rightarrow> error + frame option \<times> string" where
  "prepare_data_and_analyze imp df tax_col method =
     (let cols = [''profit_before_tax'', tax_col] @ controls
      in if \<not> (has_col df ''upe_name'' \<and> list_all (has_col df) cols) then Inl KeyError
         else
           (let data = candidate_table df tax_col
            in if method = ''CC'' then standard_filters (complete_cases data) tax_col
               else if method = ''Imputation'' then
                 (if length (rws data) > 5 then
                    standard_filters \<lparr>columns = cols, rws = imp imputer_settings data\<rparr> tax_col
                  else Inr (None, ''Insufficient data''))
               else standard_filters data tax_col))"

section \<open>The thresholds of the main programs\<close>

text \<open>\<open>" + ".join(ctrls)\<close>\<close>

fun join_plus :: "string list \<Rightarrow> string" where
  "join_plus [] = []"
| "join_plus [c] = c"
| "join_plus (c # cs) = c @ '' + '' @ join_plus cs"

text \<open>One tax basis of \<open>main\<close> in Germany_Baseline_Tax_Study.py: the blocks appended to
  the report for the two bases of the target country. A base of 10 rows or fewer adds no
  block (Base 2 only logs a warning).\<close>

definition main_stage_de :: "fit \<Rightarrow> string \<Rightarrow> frame \<Rightarrow> frame \<Rightarrow> string list \<Rightarrow> item list list" where
  "main_stage_de ols label de_b1 de_b2 ctrl_names =
     [[Title (''*** Germany '' @ label @ '' TAX ***'')]] @
     (if length (rws de_b1) > 10 then
        [run_regression_de ols de_b1 ''ln_profits ~ ETR'' (''DE '' @ label @ '' B1 Linear''),
         run_regression_de ols de_b1 ''ln_profits ~ ETR + ETR_sq'' (''DE '' @ label @ '' B1 Non-Linear'')]
      else []) @
     (if length (rws de_b2) > 10 then
        (let ctrls = join_plus ctrl_names
         in [run_regression_de ols de_b2 (''ln_profits ~ ETR + '' @ ctrls) (''DE '' @ label @ '' B2 Linear''),
             run_regression_de ols de_b2 (''ln_profits ~ ETR + ETR_sq + '' @ ctrls)
               (''DE '' @ label @ '' B2 Non-Linear'')])
      else [])"

text \<open>Whether a report block holds a fitted model.\<close>

fun is_summary :: "item \<Rightarrow> bool" where
  "is_summary (Summary ps) = True"
| "is_summary (Title t) = False"
| "is_summary (UTest b2 tp v) = False"
| "is_summary (UTestResults b1 b2 tp lo hi v) = False"
| "is_summary (UTestShape s tp) = False"
| "is_summary RegressionFailed = False"
| "is_summary NotEnoughData = False"

definition fitted :: "item list \<Rightarrow> bool" where
  "fitted block = list_ex is_summary block"

section \<open>Auxiliary definitions\<close>

text \<open>Total counterparts of the fallible steps, the composed filters of the builders,
  the invariant of a base row, and what a normalized (numeric) table is.\<close>

fun log_cell :: "cell \<Rightarrow> cell" where
  "log_cell (Num x) = Num (ln x)"
| "log_cell NaN = NaN"
| "log_cell (Str s) = NaN"

fun filter_log :: "string list \<Rightarrow> frame \<Rightarrow> frame" where
  "filter_log [] df = df"
| "filter_log (c # cs) df =
     filter_log cs (assign (''ln_'' @ c) (\<lambda>r. log_cell (r c)) (keep (\<lambda>r. cell_gt (r c) 0) df))"

definition base_core :: "real \<Rightarrow> real \<Rightarrow> string \<Rightarrow> frame \<Rightarrow> frame" where
  "base_core lo hi tax_col df =
     assign ''ETR_sq'' (\<lambda>r. cell_pow2 (r ''ETR''))
       (assign ''ln_profits'' (\<lambda>r. log_cell (r ''profit_before_tax''))
          (keep (\<lambda>r. cell_ge (r ''ETR'') lo \<and> cell_lt (r ''ETR'') hi)
             (assign ''ETR'' (\<lambda>r. cell_div (r tax_col) (r ''profit_before_tax''))
                (keep (\<lambda>r. cell_gt (r ''profit_before_tax'') 0) df))))"

definition base_row_ok :: "real \<Rightarrow> real \<Rightarrow> row \<Rightarrow> bool" where
  "base_row_ok lo hi r =
     (case (r ''profit_before_tax'', r ''ETR'', r ''ETR_sq'', r ''ln_profits'') of
        (Num p, Num e, Num s, Num l) \<Rightarrow> 0 < p \<and> lo \<le> e \<and> e < hi \<and> s = e * e \<and> l = ln p
      | _ \<Rightarrow> False)"

definition numeric_cols :: "string list" where
  "numeric_cols = [''profit_before_tax'', ''tax_accrued'', ''tax_paid''] @ controls"

definition numeric_frame :: "frame \<Rightarrow> bool" where
  "numeric_frame df = list_all (\<lambda>r. list_all (\<lambda>c. \<not> is_str (r c)) numeric_cols) (rws df)"

definition base_core_an :: "string \<Rightarrow> frame \<Rightarrow> frame" where
  "base_core_an tax_col df =
     assign ''ETR_sq'' (\<lambda>r. cell_pow2 (r ''ETR''))
       (assign ''ln_profits'' (\<lambda>r. log_cell (r ''profit_before_tax''))
          (keep (\<lambda>r. cell_gt (r ''profit_before_tax'') 0 \<and>
                      cell_ge (r ''ETR'') 0 \<and> cell_lt (r ''ETR'') 0.5)
             (assign ''ETR'' (\<lambda>r. cell_div (r tax_col) (r ''profit_before_tax'')) df)))"

fun assign_logs :: "string list \<Rightarrow> frame \<Rightarrow> frame" where
  "assign_logs [] df = df"
| "assign_logs (c # cs) df = assign_logs cs (assign (''ln_'' @ c) (\<lambda>r. log_cell (r c)) df)"

definition filtered_data :: "frame \<Rightarrow> string \<Rightarrow> frame" where
  "filtered_data data tax_col =
     fold (\<lambda>c d. keep (\<lambda>r. cell_gt (r c) 0) d) (''profit_before_tax'' # controls)
       (keep (\<lambda>r. cell_ge (r ''ETR'') 0 \<and> cell_lt (r ''ETR'') 0.5)
          (assign ''ETR'' (\<lambda>r. cell_div (r tax_col) (r ''profit_before_tax''))
             (keep (\<lambda>r. cell_gt (r ''profit_before_tax'') 0) data)))"

definition candidate_row :: "string \<Rightarrow> row \<Rightarrow> row" where
  "candidate_row tax_col r =
     (\<lambda>c. if c \<in> set controls then (if r c = Num 0 then NaN else r c)
          else if c = ''profit_before_tax'' \<or> c = tax_col then r c
          else NaN)"

text \<open>The inputs of the examples: two fits, frames of observed ETR values, and small
  tables of firms.\<close>

definition quad_fit :: fit where
  "quad_fit formula df = Some [(''Intercept'', 1), (''ETR'', - 0.4), (''ETR_sq'', 0.8)]"

definition flat_fit :: fit where
  "flat_fit formula df = Some [(''Intercept'', 1), (''ETR'', 1), (''ETR_sq'', 0)]"

definition etr_frame :: "real list \<Rightarrow> frame" where
  "etr_frame es = \<lparr>columns = [''ETR''], rws = map (\<lambda>e c. if c = ''ETR'' then Num e else NaN) es\<rparr>"

definition firm :: "string \<Rightarrow> cell \<Rightarrow> cell \<Rightarrow> cell \<Rightarrow> cell \<Rightarrow> cell \<Rightarrow> row" where
  "firm upe profit tax emp assets revenues =
     (\<lambda>c. if c = ''upe_name'' then Str upe
          else if c = ''profit_before_tax'' then profit
          else if c = ''tax_accrued'' then tax
          else if c = ''employees'' then emp
          else if c = ''tangible_assets'' then assets
          else if c = ''related_revenues'' then revenues
          else NaN)"

definition study_frame :: frame where
  "study_frame =
     \<lparr>columns = [''upe_name'', ''profit_before_tax'', ''tax_accrued'',
                 ''employees'', ''tangible_assets'', ''related_revenues''],
      rws = [firm ''Italy'' (Num 100) (Num 20) (Num 0) (Num 50) (Num 10),
             firm ''Italy'' (Num 200) (Num 30) (Num (- 3)) (Num 60) (Num 20),
             firm ''Italy'' (Num 100) (Num 10) (Num 5) (Num 50) (Num 10),
             firm ''Italy'' (Num 400) (Num 100) (Num 8) (Num 70) (Num 30),
             firm ''Italy'' (Num 100) (Num 60) (Num 9) (Num 80) (Num 40),
             firm ''Italy'' NaN (Num 10) (Num 4) (Num 10) (Num 10),
             firm ''Germany'' (Num 100) (Num 20) (Num 5) (Num 50) (Num 10)]\<rparr>"

definition raw_frame :: frame where
  "raw_frame =
     \<lparr>columns = [''upe_name'', ''profit_before_tax'', ''tax_accrued''],
      rws = [firm ''Germany'' (Str ''n/a'') (Num 20) NaN NaN NaN]\<rparr>"

definition no_parse :: "string \<Rightarrow> real option" where
  "no_parse s = None"

definition identity_imputer :: imputer where
  "identity_imputer cfg data = rws data"

definition zero_employees_frame :: frame where
  "zero_employees_frame =
     \<lparr>columns = [''upe_name'', ''profit_before_tax'', ''tax_accrued'',
                 ''employees'', ''tangible_assets'', ''related_revenues''],
      rws = [firm ''Germany'' (Num 100) (Num 20) (Num 0) (Num 50) (Num 10),
             firm ''Germany'' (Num 200) (Num 30) (Num 0) (Num 60) (Num 20),
             firm ''Germany'' (Num 100) (Num 10) (Num 0) (Num 50) (Num 10),
             firm ''Germany'' (Num 400) (Num 100) (Num 0) (Num 70) (Num 30),
             firm ''Germany'' (Num 100) (Num 40) (Num 0) (Num 80) (Num 40),
             firm ''Germany'' (Num 500) (Num 20) (Num 0) (Num 50) (Num 10)]\<rparr>"

section \<open>Properties of the frame operations\<close>

lemma cell_gt_iff: "cell_gt c y \<longleftrightarrow> (\<exists>x. c = Num x \<and> y < x)"
  by (cases c) auto

lemma cell_ge_iff: "cell_ge c y \<longleftrightarrow> (\<exists>x. c = Num x \<and> y \<le> x)"
  by (cases c) auto

lemma cell_lt_iff: "cell_lt c y \<longleftrightarrow> (\<exists>x. c = Num x \<and> x < y)"
  by (cases c) auto

lemma np_log_pos: "cell_gt c 0 \<Longrightarrow> np_log c = Inr (log_cell c)"
  by (cases c) auto

lemma rws_keep [simp]: "rws (keep p df) = filter p (rws df)"
  by (simp add: keep_def)

lemma columns_keep [simp]: "columns (keep p df) = columns df"
  by (simp add: keep_def)

lemma rws_assign [simp]: "rws (assign c f df) = map (\<lambda>r. r(c := f r)) (rws df)"
  by (simp add: assign_def)

lemma columns_assign [simp]: "columns (assign c f df) = add_col c (columns df)"
  by (simp add: assign_def)

lemma rws_dropna [simp]:
  "rws (dropna cs df) = filter (\<lambda>r. list_all (\<lambda>c. \<not> isna (r c)) cs) (rws df)"
  by (simp add: dropna_def)

lemma columns_dropna [simp]: "columns (dropna cs df) = columns df"
  by (simp add: dropna_def)

lemma set_add_col [simp]: "set (add_col c cs) = insert c (set cs)"
  by (auto simp: add_col_def)

lemma log_rows_pos:
  "\<forall>r\<in>set rs. cell_gt (r src) 0 \<Longrightarrow>
   log_rows src dst rs = Inr (map (\<lambda>r. r(dst := log_cell (r src))) rs)"
  by (induction rs) (simp_all add: np_log_pos)

lemma log_column_pos:
  "\<forall>r\<in>set (rws df). cell_gt (r src) 0 \<Longrightarrow>
   log_column src dst df = Inr (assign dst (\<lambda>r. log_cell (r src)) df)"
  by (simp add: log_column_def log_rows_pos assign_def)

lemma log_controls_eq:
  "log_controls cs df acc = Inr (filter_log cs df, acc @ map (\<lambda>c. ''ln_'' @ c) cs)"
proof (induction cs arbitrary: df acc)
  case Nil
  then show ?case by simp
next
  case (Cons c cs)
  have "log_column c (''ln_'' @ c) (keep (\<lambda>r. cell_gt (r c) 0) df) =
        Inr (assign (''ln_'' @ c) (\<lambda>r. log_cell (r c)) (keep (\<lambda>r. cell_gt (r c) 0) df))"
    by (rule log_column_pos) simp
  then show ?case by (simp add: Cons.IH)
qed

lemma log_valid_controls_eq: "log_valid_controls cs df = Inr (filter_log cs df)"
proof (induction cs arbitrary: df)
  case Nil
  then show ?case by simp
next
  case (Cons c cs)
  have "log_column c (''ln_'' @ c) (keep (\<lambda>r. cell_gt (r c) 0) df) =
        Inr (assign (''ln_'' @ c) (\<lambda>r. log_cell (r c)) (keep (\<lambda>r. cell_gt (r c) 0) df))"
    by (rule log_column_pos) simp
  then show ?case by (simp add: Cons.IH)
qed

lemma build_base1_eq:
  assumes "has_col df ''profit_before_tax''" "has_col df tax_col"
  shows "build_base1 lo hi df tax_col =
         Inr (base_core lo hi tax_col (dropna [''profit_before_tax'', tax_col] df))"
proof -
  let ?g = "keep (\<lambda>r. cell_ge (r ''ETR'') lo \<and> cell_lt (r ''ETR'') hi)
             (assign ''ETR'' (\<lambda>r. cell_div (r tax_col) (r ''profit_before_tax''))
                (keep (\<lambda>r. cell_gt (r ''profit_before_tax'') 0)
                   (dropna [''profit_before_tax'', tax_col] df)))"
  have "log_column ''profit_before_tax'' ''ln_profits'' ?g =
        Inr (assign ''ln_profits'' (\<lambda>r. log_cell (r ''profit_before_tax'')) ?g)"
    by (rule log_column_pos) auto
  with assms show ?thesis
    by (simp add: build_base1_def base_core_def Let_def)
qed

lemma build_base2_eq:
  assumes "has_col df ''profit_before_tax''" "has_col df tax_col"
  shows "build_base2 lo hi df tax_col vcs =
         Inr (filter_log vcs (base_core lo hi tax_col
                (dropna ([''profit_before_tax'', tax_col] @ vcs) df)),
              map (\<lambda>c. ''ln_'' @ c) vcs)"
proof -
  let ?g = "keep (\<lambda>r. cell_ge (r ''ETR'') lo \<and> cell_lt (r ''ETR'') hi)
             (assign ''ETR'' (\<lambda>r. cell_div (r tax_col) (r ''profit_before_tax''))
                (keep (\<lambda>r. cell_gt (r ''profit_before_tax'') 0)
                   (dropna ([''profit_before_tax'', tax_col] @ vcs) df)))"
  have "log_column ''profit_before_tax'' ''ln_profits'' ?g =
        Inr (assign ''ln_profits'' (\<lambda>r. log_cell (r ''profit_before_tax'')) ?g)"
    by (rule log_column_pos) auto
  with assms show ?thesis
    by (simp add: build_base2_def base_core_def Let_def log_controls_eq)
qed

lemma base_core_ok: "r \<in> set (rws (base_core lo hi tax_col df)) \<Longrightarrow> base_row_ok lo hi r"
  by (auto simp: base_core_def base_row_ok_def cell_gt_iff cell_ge_iff cell_lt_iff power2_eq_square)

lemma filter_log_rows:
  "r' \<in> set (rws (filter_log cs df)) \<Longrightarrow>
   \<exists>r\<in>set (rws df). \<forall>k. k \<notin> (\<lambda>c. ''ln_'' @ c) ` set cs \<longrightarrow> r' k = r k"
proof (induction cs arbitrary: df)
  case Nil
  then show ?case by auto
next
  case (Cons c cs)
  from Cons.IH [OF Cons.prems [simplified]]
  show ?case by auto
qed

lemma ln_control_neq:
  "c \<in> set controls \<Longrightarrow> ''ln_'' @ c \<noteq> ''ln_profits''"
  by (auto simp: controls_def)

lemma ln_image_fresh:
  assumes "set cs \<subseteq> set controls"
  shows "''profit_before_tax'' \<notin> (\<lambda>c. ''ln_'' @ c) ` set cs"
    and "''ETR'' \<notin> (\<lambda>c. ''ln_'' @ c) ` set cs"
    and "''ETR_sq'' \<notin> (\<lambda>c. ''ln_'' @ c) ` set cs"
    and "''ln_profits'' \<notin> (\<lambda>c. ''ln_'' @ c) ` set cs"
proof -
  show "''profit_before_tax'' \<notin> (\<lambda>c. ''ln_'' @ c) ` set cs" by auto
  show "''ETR'' \<notin> (\<lambda>c. ''ln_'' @ c) ` set cs" by auto
  show "''ETR_sq'' \<notin> (\<lambda>c. ''ln_'' @ c) ` set cs" by auto
  show "''ln_profits'' \<notin> (\<lambda>c. ''ln_'' @ c) ` set cs"
  proof
    assume "''ln_profits'' \<in> (\<lambda>c. ''ln_'' @ c) ` set cs"
    then obtain c where c: "c \<in> set cs" and e: "''ln_profits'' = ''ln_'' @ c" by (rule imageE)
    from c assms have "c \<in> set controls" by (rule subsetD [rotated])
    from ln_control_neq [OF this] e show False by simp
  qed
qed

lemma filter_log_ok:
  assumes "set cs \<subseteq> set controls" "\<forall>r\<in>set (rws df). base_row_ok lo hi r"
    and "r' \<in> set (rws (filter_log cs df))"
  shows "base_row_ok lo hi r'"
proof -
  from filter_log_rows [OF assms(3)] obtain r where r: "r \<in> set (rws df)"
    and eq: "\<forall>k. k \<notin> (\<lambda>c. ''ln_'' @ c) ` set cs \<longrightarrow> r' k = r k" by (rule bexE)
  note fr = ln_image_fresh [OF assms(1)]
  have 1: "r' ''profit_before_tax'' = r ''profit_before_tax''" by (rule eq [rule_format, OF fr(1)])
  have 2: "r' ''ETR'' = r ''ETR''" by (rule eq [rule_format, OF fr(2)])
  have 3: "r' ''ETR_sq'' = r ''ETR_sq''" by (rule eq [rule_format, OF fr(3)])
  have 4: "r' ''ln_profits'' = r ''ln_profits''" by (rule eq [rule_format, OF fr(4)])
  from assms(2) r have "base_row_ok lo hi r" by (rule bspec)
  then show ?thesis unfolding base_row_ok_def 1 2 3 4 .
qed

lemma has_col_coerce [simp]: "has_col (coerce_col parse c df) k \<longleftrightarrow> k = c \<or> has_col df k"
  by (auto simp: has_col_def coerce_col_def)

lemma has_col_fold_coerce [simp]:
  "has_col (fold (coerce_col parse) cs df) k \<longleftrightarrow> k \<in> set cs \<or> has_col df k"
  by (induction cs arbitrary: df) auto

lemma filter_has_col_fold:
  "filter (has_col (fold (coerce_col parse) cs df)) ks = filter (\<lambda>k. k \<in> set cs \<or> has_col df k) ks"
  by (rule filter_cong) auto

lemma create_de_eq:
  assumes "has_col df ''profit_before_tax''" "has_col df tax_col"
  shows "create_global_clean_bases_de parse df tax_col =
     (let df1 = fold (coerce_col parse) [''profit_before_tax'', tax_col] df;
          vcs = filter (has_col df1) controls;
          df2 = fold (coerce_col parse) vcs df1
      in Inr (df2,
              base_core 0 0.5 tax_col (dropna [''profit_before_tax'', tax_col] df1),
              filter_log vcs (base_core 0 0.5 tax_col
                (dropna ([''profit_before_tax'', tax_col] @ vcs) df2)),
              map (\<lambda>c. ''ln_'' @ c) vcs))"
proof -
  let ?df1 = "fold (coerce_col parse) [''profit_before_tax'', tax_col] df"
  let ?vcs = "filter (has_col ?df1) controls"
  let ?df2 = "fold (coerce_col parse) ?vcs ?df1"
  have h1: "has_col ?df1 ''profit_before_tax''" "has_col ?df1 tax_col"
    using assms by simp_all
  have h2: "has_col ?df2 ''profit_before_tax''" "has_col ?df2 tax_col"
    using h1 by simp_all
  show ?thesis
    unfolding create_global_clean_bases_de_def Let_def
    using assms by (simp only: build_base1_eq [OF h1] build_base2_eq [OF h2]) simp
qed

lemma create_it_eq:
  assumes "has_col df ''profit_before_tax''" "has_col df tax_col"
  shows "create_global_clean_bases_it parse df tax_col =
     (let df1 = fold (coerce_col parse) [''profit_before_tax'', tax_col] df;
          vcs = filter (has_col df1) controls;
          df2 = fold (coerce_col parse) vcs df1
      in Inr (df2,
              base_core 0 1 tax_col (dropna [''profit_before_tax'', tax_col] df2),
              filter_log vcs (base_core 0 1 tax_col
                (dropna ([''profit_before_tax'', tax_col] @ vcs) df2)),
              map (\<lambda>c. ''ln_'' @ c) vcs))"
proof -
  have f: "filter (has_col df) [''profit_before_tax'', tax_col] = [''profit_before_tax'', tax_col]"
    using assms by simp
  let ?df1 = "fold (coerce_col parse) [''profit_before_tax'', tax_col] df"
  let ?vcs = "filter (has_col ?df1) controls"
  let ?df2 = "fold (coerce_col parse) ?vcs ?df1"
  have h1: "has_col ?df1 ''profit_before_tax''" "has_col ?df1 tax_col"
    using assms by simp_all
  have h2: "has_col ?df2 ''profit_before_tax''" "has_col ?df2 tax_col"
    using h1 by simp_all
  show ?thesis
    unfolding create_global_clean_bases_it_def Let_def f
    by (simp only: build_base1_eq [OF h2] build_base2_eq [OF h2]) simp
qed

lemma create_de_Inr_cols:
  "create_global_clean_bases_de parse df tax_col = Inr res \<Longrightarrow>
   has_col df ''profit_before_tax'' \<and> has_col df tax_col"
  by (auto simp: create_global_clean_bases_de_def split: if_splits)

lemma build_base1_Inr_cols:
  "build_base1 lo hi df tax_col = Inr res \<Longrightarrow>
   has_col df ''profit_before_tax'' \<and> has_col df tax_col"
  by (auto simp: build_base1_def split: if_splits)

lemma create_it_Inr_cols:
  assumes "create_global_clean_bases_it parse df tax_col = Inr res"
  shows "has_col df ''profit_before_tax'' \<and> has_col df tax_col"
proof -
  let ?df1 = "fold (coerce_col parse) (filter (has_col df) [''profit_before_tax'', tax_col]) df"
  let ?df2 = "fold (coerce_col parse) (filter (has_col ?df1) controls) ?df1"
  from assms obtain g where "build_base1 0 1 ?df2 tax_col = Inr g"
    by (auto simp: create_global_clean_bases_it_def Let_def split: sum.splits)
  from build_base1_Inr_cols [OF this]
  have a: "has_col ?df2 ''profit_before_tax''" and b: "has_col ?df2 tax_col" by blast+
  from a have "has_col df ''profit_before_tax''"
    by (auto simp: controls_def split: if_splits)
  moreover from b have "has_col df tax_col \<or> tax_col \<in> set (filter (has_col ?df1) controls)"
    by (auto split: if_splits)
  then have "has_col df tax_col" by (auto split: if_splits)
  ultimately show ?thesis by simp
qed

lemma to_numeric_id: "\<not> is_str c \<Longrightarrow> to_numeric parse c = c"
  by (cases c) auto

lemma coerce_col_id:
  assumes "has_col df c" "\<forall>r\<in>set (rws df). \<not> is_str (r c)"
  shows "coerce_col parse c df = df"
proof -
  have "map (\<lambda>r. r(c := to_numeric parse (r c))) (rws df) = rws df"
    using assms(2) by (intro map_idI) (simp add: to_numeric_id)
  moreover have "add_col c (columns df) = columns df"
    using assms(1) by (simp add: add_col_def has_col_def)
  ultimately show ?thesis by (simp add: coerce_col_def assign_def)
qed

lemma fold_coerce_id:
  assumes "\<forall>c\<in>set cs. has_col df c \<and> (\<forall>r\<in>set (rws df). \<not> is_str (r c))"
  shows "fold (coerce_col parse) cs df = df"
  using assms by (induction cs) (simp_all add: coerce_col_id)

lemma numeric_frameD:
  "numeric_frame df \<Longrightarrow> c \<in> set numeric_cols \<Longrightarrow> r \<in> set (rws df) \<Longrightarrow> \<not> is_str (r c)"
  by (auto simp: numeric_frame_def list_all_iff)

lemma create_de_parts:
  assumes "create_global_clean_bases_de parse df tax_col = Inr (df', gb1, gb2, lc)"
  defines "df1 \<equiv> fold (coerce_col parse) [''profit_before_tax'', tax_col] df"
  defines "vcs \<equiv> filter (\<lambda>k. k \<in> {''profit_before_tax'', tax_col} \<or> has_col df k) controls"
  shows "has_col df ''profit_before_tax''" "has_col df tax_col"
    "df' = fold (coerce_col parse) vcs df1"
    "gb1 = base_core 0 0.5 tax_col (dropna [''profit_before_tax'', tax_col] df1)"
    "gb2 = filter_log vcs (base_core 0 0.5 tax_col
                (dropna ([''profit_before_tax'', tax_col] @ vcs) df'))"
    "lc = map (\<lambda>c. ''ln_'' @ c) vcs"
proof -
  from create_de_Inr_cols [OF assms(1)]
  show p: "has_col df ''profit_before_tax''" and t: "has_col df tax_col" by blast+
  have v: "filter (has_col df1) controls = vcs"
    unfolding df1_def vcs_def by (rule filter_cong) auto
  from assms(1) [unfolded create_de_eq [OF p t] Let_def, folded df1_def, unfolded v]
  have e: "fold (coerce_col parse) vcs df1 = df' \<and>
        base_core 0 0.5 tax_col (dropna [''profit_before_tax'', tax_col] df1) = gb1 \<and>
        filter_log vcs (base_core 0 0.5 tax_col
                (dropna ([''profit_before_tax'', tax_col] @ vcs) (fold (coerce_col parse) vcs df1))) = gb2 \<and>
        map (\<lambda>c. ''ln_'' @ c) vcs = lc"
    unfolding sum.inject prod.inject .
  from e have e1: "fold (coerce_col parse) vcs df1 = df'" by (rule conjunct1)
  from e show "df' = fold (coerce_col parse) vcs df1" by (elim conjE) (erule sym)
  from e show "gb1 = base_core 0 0.5 tax_col (dropna [''profit_before_tax'', tax_col] df1)"
    by (elim conjE) (erule sym)
  from e show "gb2 = filter_log vcs (base_core 0 0.5 tax_col
                (dropna ([''profit_before_tax'', tax_col] @ vcs) df'))"
    unfolding e1 [symmetric] by (elim conjE) (erule sym)
  from e show "lc = map (\<lambda>c. ''ln_'' @ c) vcs" by (elim conjE) (erule sym)
qed

lemma create_it_parts:
  assumes "create_global_clean_bases_it parse df tax_col = Inr (df', gb1, gb2, lc)"
  defines "df1 \<equiv> fold (coerce_col parse) [''profit_before_tax'', tax_col] df"
  defines "vcs \<equiv> filter (\<lambda>k. k \<in> {''profit_before_tax'', tax_col} \<or> has_col df k) controls"
  shows "has_col df ''profit_before_tax''" "has_col df tax_col"
    "df' = fold (coerce_col parse) vcs df1"
    "gb1 = base_core 0 1 tax_col (dropna [''profit_before_tax'', tax_col] df')"
    "gb2 = filter_log vcs (base_core 0 1 tax_col
                (dropna ([''profit_before_tax'', tax_col] @ vcs) df'))"
    "lc = map (\<lambda>c. ''ln_'' @ c) vcs"
proof -
  from create_it_Inr_cols [OF assms(1)]
  show p: "has_col df ''profit_before_tax''" and t: "has_col df tax_col" by blast+
  have v: "filter (has_col df1) controls = vcs"
    unfolding df1_def vcs_def by (rule filter_cong) auto
  from assms(1) [unfolded create_it_eq [OF p t] Let_def, folded df1_def, unfolded v]
  have e: "fold (coerce_col parse) vcs df1 = df' \<and>
        base_core 0 1 tax_col (dropna [''profit_before_tax'', tax_col] (fold (coerce_col parse) vcs df1)) = gb1 \<and>
        filter_log vcs (base_core 0 1 tax_col
                (dropna ([''profit_before_tax'', tax_col] @ vcs) (fold (coerce_col parse) vcs df1))) = gb2 \<and>
        map (\<lambda>c. ''ln_'' @ c) vcs = lc"
    unfolding sum.inject prod.inject .
  from e have e1: "fold (coerce_col parse) vcs df1 = df'" by (rule conjunct1)
  from e show "df' = fold (coerce_col parse) vcs df1" by (elim conjE) (erule sym)
  from e show "gb1 = base_core 0 1 tax_col (dropna [''profit_before_tax'', tax_col] df')"
    unfolding e1 [symmetric] by (elim conjE) (erule sym)
  from e show "gb2 = filter_log vcs (base_core 0 1 tax_col
                (dropna ([''profit_before_tax'', tax_col] @ vcs) df'))"
    unfolding e1 [symmetric] by (elim conjE) (erule sym)
  from e show "lc = map (\<lambda>c. ''ln_'' @ c) vcs" by (elim conjE) (erule sym)
qed

lemma controls_not_base: "c \<in> set controls \<Longrightarrow> c \<noteq> ''profit_before_tax''"
  by (auto simp: controls_def)

lemma coerce_numeric_frame:
  assumes "numeric_frame df" "tax_col \<in> {''tax_accrued'', ''tax_paid''}"
    "has_col df ''profit_before_tax''" "has_col df tax_col"
  shows "fold (coerce_col parse)
           (filter (\<lambda>k. k \<in> {''profit_before_tax'', tax_col} \<or> has_col df k) controls)
           (fold (coerce_col parse) [''profit_before_tax'', tax_col] df) = df"
proof -
  have tn: "tax_col \<in> set numeric_cols" using assms(2) by (auto simp: numeric_cols_def)
  have pn: "''profit_before_tax'' \<in> set numeric_cols" by (simp add: numeric_cols_def)
  have cn: "c \<in> set controls \<Longrightarrow> c \<in> set numeric_cols" for c by (simp add: numeric_cols_def)
  have 1: "fold (coerce_col parse) [''profit_before_tax'', tax_col] df = df"
  proof (rule fold_coerce_id, rule ballI, rule conjI)
    fix c assume c: "c \<in> set [''profit_before_tax'', tax_col]"
    then show "has_col df c" using assms(3,4) by auto
    from c have "c \<in> set numeric_cols" using tn pn by auto
    then show "\<forall>r\<in>set (rws df). \<not> is_str (r c)" using numeric_frameD [OF assms(1)] by blast
  qed
  have f: "filter (\<lambda>k. k \<in> {''profit_before_tax'', tax_col} \<or> has_col df k) controls =
           filter (has_col df) controls"
    by (rule filter_cong) (use assms(3,4) in auto)
  have 2: "fold (coerce_col parse) (filter (has_col df) controls) df = df"
  proof (rule fold_coerce_id, rule ballI, rule conjI)
    fix c assume c: "c \<in> set (filter (has_col df) controls)"
    then show "has_col df c" by simp
    from c have "c \<in> set numeric_cols" using cn by simp
    then show "\<forall>r\<in>set (rws df). \<not> is_str (r c)" using numeric_frameD [OF assms(1)] by blast
  qed
  show ?thesis unfolding 1 f 2 ..
qed

lemma filter_controls_subset:
  "set (filter P controls) \<subseteq> set controls"
  by (rule filter_is_subset)

lemma base_core_all_ok: "list_all (base_row_ok lo hi) (rws (base_core lo hi tax_col df))"
  unfolding list_all_iff using base_core_ok by blast

lemma filter_log_all_ok:
  assumes "set cs \<subseteq> set controls"
  shows "list_all (base_row_ok lo hi) (rws (filter_log cs (base_core lo hi tax_col df)))"
proof -
  have "\<forall>r\<in>set (rws (base_core lo hi tax_col df)). base_row_ok lo hi r"
    using base_core_ok by blast
  from filter_log_ok [OF assms this] show ?thesis
    unfolding list_all_iff by blast
qed

lemma turning_point_Num:
  "turning_point b1 b2 = Num (if b2 \<noteq> 0 then - b1 / (2 * b2) else 0)"
  by (simp add: turning_point_def)

lemma fold_min_Min: "fold min xs (x::real) = Min (set (x # xs))"
  by (rule Min.set_eq_fold [symmetric])

lemma fold_max_Max: "fold max xs (x::real) = Max (set (x # xs))"
  by (rule Max.set_eq_fold [symmetric])

lemma col_min_Min: "nums cs \<noteq> [] \<Longrightarrow> col_min cs = Num (Min (set (nums cs)))"
  by (cases "nums cs") (simp_all add: col_min_def fold_min_Min)

lemma col_max_Max: "nums cs \<noteq> [] \<Longrightarrow> col_max cs = Num (Max (set (nums cs)))"
  by (cases "nums cs") (simp_all add: col_max_def fold_max_Max)

section \<open>The turning point, the shape and the range flag\<close>

text \<open>
  Claim C1. For a fitted quadratic model with the coefficients \<open>b1\<close> of \<open>ETR\<close> and
  \<open>b2\<close> of \<open>ETR_sq\<close>, the turning point reported by \<open>run_regression\<close> is the number
  \<open>- b1 / (2 * b2)\<close> when \<open>b2 \<noteq> 0\<close> and the number 0 when \<open>b2 = 0\<close>; it is never
  the non-finite value of a division by zero. This holds for the Germany baseline study
  and for the analyzer of analysis_script.py.
\<close>

theorem turning_point_formula:
  assumes "ols formula df = Some ps"
    and "map_of ps ''ETR'' = Some b1" and "map_of ps ''ETR_sq'' = Some b2"
  shows "turning_point b1 b2 = Num (if b2 \<noteq> 0 then - b1 / (2 * b2) else 0) \<and>
         (has_col df ''ETR'' \<longrightarrow>
            (\<exists>v. run_regression_de ols df formula title =
                  [Title title, Summary ps,
                   UTest b2 (Num (if b2 \<noteq> 0 then - b1 / (2 * b2) else 0)) v])) \<and>
         (5 \<le> length (rws df) \<longrightarrow>
            run_regression_an ols df formula title =
              [Title title, Summary ps,
               UTestShape (shape_of b2) (Num (if b2 \<noteq> 0 then - b1 / (2 * b2) else 0))])"
  using assms
  by (simp add: turning_point_Num run_regression_de_def run_regression_an_def Let_def)

theorem turning_point_formula_witness:
  "turning_point (- 0.4) 0.8 = Num 0.25 \<and>
   turning_point 1 0 = Num 0 \<and>
   (\<exists>v. run_regression_de quad_fit (etr_frame [0, 0.1, 0.2, 0.3, 0.49]) ''ln_profits ~ ETR + ETR_sq'' ''M2'' =
     [Title ''M2'', Summary [(''Intercept'', 1), (''ETR'', - 0.4), (''ETR_sq'', 0.8)],
      UTest 0.8 (Num 0.25) v]) \<and>
   run_regression_an quad_fit (etr_frame [0, 0.1, 0.2, 0.3, 0.49]) ''ln_profits ~ ETR + ETR_sq'' ''M2'' =
     [Title ''M2'', Summary [(''Intercept'', 1), (''ETR'', - 0.4), (''ETR_sq'', 0.8)],
      UTestShape ''U-Shape'' (Num 0.25)] \<and>
   run_regression_an flat_fit (etr_frame [0, 0.1, 0.2, 0.3, 0.49]) ''ln_profits ~ ETR + ETR_sq'' ''M2'' =
     [Title ''M2'', Summary [(''Intercept'', 1), (''ETR'', 1), (''ETR_sq'', 0)],
      UTestShape ''U-Shape'' (Num 0)]"
  using turning_point_formula [of quad_fit "''ln_profits ~ ETR + ETR_sq''"
      "etr_frame [0, 0.1, 0.2, 0.3, 0.49]" "[(''Intercept'', 1), (''ETR'', - 0.4), (''ETR_sq'', 0.8)]"
      "- 0.4" "0.8" "''M2''"]
    turning_point_formula [of flat_fit "''ln_profits ~ ETR + ETR_sq''"
      "etr_frame [0, 0.1, 0.2, 0.3, 0.49]" "[(''Intercept'', 1), (''ETR'', 1), (''ETR_sq'', 0)]"
      "1" "0" "''M2''"]
  by (simp add: quad_fit_def flat_fit_def etr_frame_def shape_of_def has_col_def)

text \<open>
  Claim C2, as amended. The analyzer of analysis_script.py knows two shapes only: it
  reports \<open>Inverted U\<close> when \<open>b2 < 0\<close> and \<open>U-Shape\<close> otherwise, so also when
  \<open>b2 = 0\<close>, where the turning point is 0. There is no shape \<open>degenerate\<close>.
\<close>

theorem shape_classification:
  assumes "ols formula df = Some ps"
    and "map_of ps ''ETR'' = Some b1" and "map_of ps ''ETR_sq'' = Some b2"
    and "5 \<le> length (rws df)"
  shows "run_regression_an ols df formula title =
           [Title title, Summary ps,
            UTestShape (if b2 < 0 then ''Inverted U'' else ''U-Shape'') (turning_point b1 b2)] \<and>
         (b2 = 0 \<longrightarrow> turning_point b1 b2 = Num 0)"
  using assms
  by (simp add: turning_point_Num run_regression_an_def shape_of_def Let_def)

theorem shape_classification_witness:
  "run_regression_an quad_fit (etr_frame [0, 0.1, 0.2, 0.3, 0.49]) ''ln_profits ~ ETR + ETR_sq'' ''M2'' =
     [Title ''M2'', Summary [(''Intercept'', 1), (''ETR'', - 0.4), (''ETR_sq'', 0.8)],
      UTestShape ''U-Shape'' (turning_point (- 0.4) 0.8)]"
  using shape_classification [of quad_fit "''ln_profits ~ ETR + ETR_sq''"
      "etr_frame [0, 0.1, 0.2, 0.3, 0.49]" "[(''Intercept'', 1), (''ETR'', - 0.4), (''ETR_sq'', 0.8)]"
      "- 0.4" "0.8" "''M2''"]
  by (simp add: quad_fit_def etr_frame_def)

text \<open>At \<open>b2 = 0\<close> the reported shape is the one of a positive \<open>b2\<close>, not
  \<open>degenerate\<close>.\<close>

theorem shape_degenerate_counterexample:
  "run_regression_an flat_fit (etr_frame [0, 0.1, 0.2, 0.3, 0.49]) ''ln_profits ~ ETR + ETR_sq'' ''M2'' =
     [Title ''M2'', Summary [(''Intercept'', 1), (''ETR'', 1), (''ETR_sq'', 0)],
      UTestShape ''U-Shape'' (Num 0)] \<and>
   shape_of 0 = shape_of 1 \<and> shape_of 0 \<noteq> ''degenerate''"
  by (simp add: run_regression_an_def flat_fit_def etr_frame_def shape_of_def turning_point_def)

text \<open>
  Claim C3. For a fitted quadratic model over a base with observed ETR values, the flag
  \<open>In Range?\<close> of the Germany and Italy baseline studies is true exactly when the
  turning point lies between the minimum and the maximum of the observed ETR column.
  With \<open>b1 = -0.4\<close> and \<open>b2 = 0.8\<close> the turning point is 0.25: inside the observed
  range from 0 to 0.49, outside the observed range from 0.3 to 0.49.
\<close>

theorem in_range_flag:
  assumes "ols formula df = Some ps"
    and "map_of ps ''ETR'' = Some b1" and "map_of ps ''ETR_sq'' = Some b2"
    and "has_col df ''ETR''" and "nums (column ''ETR'' df) \<noteq> []"
  shows "run_regression_de ols df formula title =
           [Title title, Summary ps,
            UTest b2 (Num (if b2 \<noteq> 0 then - b1 / (2 * b2) else 0))
              (Min (set (nums (column ''ETR'' df))) \<le> (if b2 \<noteq> 0 then - b1 / (2 * b2) else 0) \<and>
               (if b2 \<noteq> 0 then - b1 / (2 * b2) else 0) \<le> Max (set (nums (column ''ETR'' df))))] \<and>
         (5 \<le> length (rws df) \<longrightarrow>
          run_regression_it ols df formula title =
           [Title title, Summary ps,
            UTestResults b1 b2 (Num (if b2 \<noteq> 0 then - b1 / (2 * b2) else 0))
              (Num (Min (set (nums (column ''ETR'' df))))) (Num (Max (set (nums (column ''ETR'' df)))))
              (Min (set (nums (column ''ETR'' df))) \<le> (if b2 \<noteq> 0 then - b1 / (2 * b2) else 0) \<and>
               (if b2 \<noteq> 0 then - b1 / (2 * b2) else 0) \<le> Max (set (nums (column ''ETR'' df))))])"
  using assms
  by (simp add: run_regression_de_def run_regression_it_def Let_def params_get_def
      turning_point_Num in_range_def col_min_Min col_max_Max)

theorem in_range_flag_witness:
  "run_regression_de quad_fit (etr_frame [0, 0.1, 0.2, 0.3, 0.49]) ''ln_profits ~ ETR + ETR_sq'' ''B1'' =
     [Title ''B1'', Summary [(''Intercept'', 1), (''ETR'', - 0.4), (''ETR_sq'', 0.8)],
      UTest 0.8 (Num 0.25) True] \<and>
   run_regression_de quad_fit (etr_frame [0.3, 0.35, 0.4, 0.45, 0.49]) ''ln_profits ~ ETR + ETR_sq'' ''B1'' =
     [Title ''B1'', Summary [(''Intercept'', 1), (''ETR'', - 0.4), (''ETR_sq'', 0.8)],
      UTest 0.8 (Num 0.25) False] \<and>
   run_regression_it quad_fit (etr_frame [0, 0.1, 0.2, 0.3, 0.49]) ''ln_profits ~ ETR + ETR_sq'' ''B1'' =
     [Title ''B1'', Summary [(''Intercept'', 1), (''ETR'', - 0.4), (''ETR_sq'', 0.8)],
      UTestResults (- 0.4) 0.8 (Num 0.25) (Num 0) (Num 0.49) True] \<and>
   run_regression_it quad_fit (etr_frame [0.3, 0.35, 0.4, 0.45, 0.49]) ''ln_profits ~ ETR + ETR_sq'' ''B1'' =
     [Title ''B1'', Summary [(''Intercept'', 1), (''ETR'', - 0.4), (''ETR_sq'', 0.8)],
      UTestResults (- 0.4) 0.8 (Num 0.25) (Num 0.3) (Num 0.49) False]"
  using in_range_flag [of quad_fit "''ln_profits ~ ETR + ETR_sq''"
      "etr_frame [0, 0.1, 0.2, 0.3, 0.49]" "[(''Intercept'', 1), (''ETR'', - 0.4), (''ETR_sq'', 0.8)]"
      "- 0.4" "0.8" "''B1''"]
    in_range_flag [of quad_fit "''ln_profits ~ ETR + ETR_sq''"
      "etr_frame [0.3, 0.35, 0.4, 0.45, 0.49]" "[(''Intercept'', 1), (''ETR'', - 0.4), (''ETR_sq'', 0.8)]"
      "- 0.4" "0.8" "''B1''"]
  by (simp add: quad_fit_def etr_frame_def column_def has_col_def)

lemma base_core_an_ok:
  "r \<in> set (rws (base_core_an tax_col df)) \<Longrightarrow> base_row_ok 0 0.5 r"
  by (auto simp: base_core_an_def base_row_ok_def cell_gt_iff cell_ge_iff cell_lt_iff power2_eq_square)

lemma prepare_datasets_eq:
  assumes "has_col df tax_col" "has_col df ''profit_before_tax''"
  shows "prepare_datasets df tax_col =
     (let base1 = base_core_an tax_col (dropna [''profit_before_tax'', tax_col] df);
          vcs = filter (\<lambda>ctrl. has_col base1 ctrl \<and> count_positive ctrl base1 > 5) controls
      in Inr (Some (base1, filter_log vcs (dropna vcs base1), vcs)))"
proof -
  let ?g = "keep (\<lambda>r. cell_gt (r ''profit_before_tax'') 0 \<and>
                      cell_ge (r ''ETR'') 0 \<and> cell_lt (r ''ETR'') 0.5)
             (assign ''ETR'' (\<lambda>r. cell_div (r tax_col) (r ''profit_before_tax''))
                (dropna [''profit_before_tax'', tax_col] df))"
  have "log_column ''profit_before_tax'' ''ln_profits'' ?g =
        Inr (assign ''ln_profits'' (\<lambda>r. log_cell (r ''profit_before_tax'')) ?g)"
    by (rule log_column_pos) auto
  with assms show ?thesis
    by (simp add: prepare_datasets_def base_core_an_def Let_def log_valid_controls_eq)
qed

lemma has_col_base_core_an:
  "c \<in> set controls \<Longrightarrow> has_col (base_core_an tax_col (dropna cs df)) c \<longleftrightarrow> has_col df c"
  by (auto simp: base_core_an_def has_col_def controls_def)

lemma base_core_an_rows:
  "r \<in> set (rws (base_core_an tax_col df)) \<Longrightarrow>
   \<exists>r0\<in>set (rws df). \<forall>k. k \<notin> {''ETR'', ''ln_profits'', ''ETR_sq''} \<longrightarrow> r k = r0 k"
  by (auto simp: base_core_an_def)

lemma controls_not_derived:
  "c \<in> set controls \<Longrightarrow> c \<notin> {''ETR'', ''ln_profits'', ''ETR_sq''}"
  by (auto simp: controls_def)

lemma count_positive_zero:
  assumes "c \<in> set controls" "\<forall>r\<in>set (rws df). r c = Num 0"
  shows "count_positive c (base_core_an tax_col (dropna cs df)) = 0"
proof -
  have "\<not> cell_gt (r c) 0" if "r \<in> set (rws (base_core_an tax_col (dropna cs df)))" for r
  proof -
    from base_core_an_rows [OF that] obtain r0 where r0: "r0 \<in> set (rws (dropna cs df))"
      and e: "\<forall>k. k \<notin> {''ETR'', ''ln_profits'', ''ETR_sq''} \<longrightarrow> r k = r0 k" by (rule bexE)
    from r0 have "r0 \<in> set (rws df)" by simp
    with assms(2) have "r0 c = Num 0" by (rule bspec)
    moreover have "r c = r0 c" by (rule e [rule_format, OF controls_not_derived [OF assms(1)]])
    ultimately show ?thesis by simp
  qed
  then show ?thesis by (simp add: count_positive_def)
qed

lemma rws_fold_keep:
  "rws (fold (\<lambda>c d. keep (\<lambda>r. cell_gt (r c) 0) d) cs df) =
   filter (\<lambda>r. list_all (\<lambda>c. cell_gt (r c) 0) cs) (rws df)"
proof (induction cs arbitrary: df)
  case Nil
  then show ?case by simp
next
  case (Cons c cs)
  show ?case
    by (simp add: Cons.IH)
qed

lemma columns_fold_keep:
  "columns (fold (\<lambda>c d. keep (\<lambda>r. cell_gt (r c) 0) d) cs df) = columns df"
  by (induction cs arbitrary: df) simp_all

lemma ln_controls_distinct:
  "c \<in> set controls \<Longrightarrow> c' \<in> set controls \<Longrightarrow> ''ln_'' @ c' \<noteq> c"
  by (auto simp: controls_def)

lemma log_all_eq:
  assumes "\<forall>r\<in>set (rws df). \<forall>c\<in>set cs. cell_gt (r c) 0"
    and "\<forall>c\<in>set cs. \<forall>c'\<in>set cs. ''ln_'' @ c' \<noteq> c"
  shows "log_all cs df = Inr (assign_logs cs df)"
  using assms
proof (induction cs arbitrary: df)
  case Nil
  then show ?case by simp
next
  case (Cons c cs)
  have 1: "log_column c (''ln_'' @ c) df = Inr (assign (''ln_'' @ c) (\<lambda>r. log_cell (r c)) df)"
    by (rule log_column_pos) (use Cons.prems(1) in simp)
  have 2: "log_all cs (assign (''ln_'' @ c) (\<lambda>r. log_cell (r c)) df) =
           Inr (assign_logs cs (assign (''ln_'' @ c) (\<lambda>r. log_cell (r c)) df))"
  proof (rule Cons.IH)
    show "\<forall>r\<in>set (rws (assign (''ln_'' @ c) (\<lambda>r. log_cell (r c)) df)). \<forall>c\<in>set cs. cell_gt (r c) 0"
      using Cons.prems by auto
    show "\<forall>c\<in>set cs. \<forall>c'\<in>set cs. ''ln_'' @ c' \<noteq> c"
      using Cons.prems(2) by simp
  qed
  show ?case by (simp only: log_all.simps assign_logs.simps 1 sum.case 2)
qed

lemma assign_logs_rows:
  "r' \<in> set (rws (assign_logs cs df)) \<Longrightarrow>
   \<exists>r\<in>set (rws df). \<forall>k. k \<notin> (\<lambda>c. ''ln_'' @ c) ` set cs \<longrightarrow> r' k = r k"
proof (induction cs arbitrary: df)
  case Nil
  then show ?case by auto
next
  case (Cons c cs)
  from Cons.IH [OF Cons.prems [simplified]]
  show ?case by auto
qed

lemma filtered_data_rows:
  assumes "r \<in> set (rws (filtered_data data tax_col))"
  shows "(\<exists>p e. r ''profit_before_tax'' = Num p \<and> 0 < p \<and> r ''ETR'' = Num e \<and> 0 \<le> e \<and> e < 0.5) \<and>
         (\<forall>c\<in>set controls. cell_gt (r c) 0)"
  using assms unfolding filtered_data_def rws_fold_keep
  by (auto simp: cell_gt_iff cell_ge_iff cell_lt_iff list_all_iff)

lemma standard_filters_eq:
  "standard_filters data tax_col =
     Inr (Some (assign ''ETR_sq'' (\<lambda>r. cell_pow2 (r ''ETR''))
                  (assign_logs controls
                     (assign ''ln_profits'' (\<lambda>r. log_cell (r ''profit_before_tax''))
                        (filtered_data data tax_col)))), [])"
proof -
  let ?d = "filtered_data data tax_col"
  let ?l = "assign ''ln_profits'' (\<lambda>r. log_cell (r ''profit_before_tax'')) ?d"
  have 1: "log_column ''profit_before_tax'' ''ln_profits'' ?d = Inr ?l"
  proof (rule log_column_pos, rule ballI)
    fix r assume "r \<in> set (rws ?d)"
    from filtered_data_rows [OF this] show "cell_gt (r ''profit_before_tax'') 0"
      by (auto simp: cell_gt_iff)
  qed
  have 2: "log_all controls ?l = Inr (assign_logs controls ?l)"
  proof (rule log_all_eq)
    show "\<forall>r\<in>set (rws ?l). \<forall>c\<in>set controls. cell_gt (r c) 0"
    proof (intro ballI)
      fix r c assume r: "r \<in> set (rws ?l)" and c: "c \<in> set controls"
      from r obtain r0 where r0: "r0 \<in> set (rws ?d)"
        and e: "r = r0(''ln_profits'' := log_cell (r0 ''profit_before_tax''))" by auto
      from c have "c \<noteq> ''ln_profits''" by (auto simp: controls_def)
      with e have "r c = r0 c" by simp
      with filtered_data_rows [OF r0] c show "cell_gt (r c) 0" by simp
    qed
    show "\<forall>c\<in>set controls. \<forall>c'\<in>set controls. ''ln_'' @ c' \<noteq> c"
      using ln_controls_distinct by blast
  qed
  show ?thesis
    unfolding standard_filters_def Let_def filtered_data_def [symmetric] 1 by (simp add: 2)
qed

lemma standard_filters_ok:
  assumes "standard_filters data tax_col = Inr (Some base, msg)"
  shows "list_all (base_row_ok 0 0.5) (rws base)"
proof -
  let ?d = "filtered_data data tax_col"
  let ?l = "assign ''ln_profits'' (\<lambda>r. log_cell (r ''profit_before_tax'')) ?d"
  from assms have b: "base = assign ''ETR_sq'' (\<lambda>r. cell_pow2 (r ''ETR'')) (assign_logs controls ?l)"
    unfolding standard_filters_eq by simp
  have "base_row_ok 0 0.5 r" if "r \<in> set (rws base)" for r
  proof -
    from that b obtain r1 where r1: "r1 \<in> set (rws (assign_logs controls ?l))"
      and e1: "r = r1(''ETR_sq'' := cell_pow2 (r1 ''ETR''))" by auto
    from assign_logs_rows [OF r1] obtain r2 where r2: "r2 \<in> set (rws ?l)"
      and e2: "\<forall>k. k \<notin> (\<lambda>c. ''ln_'' @ c) ` set controls \<longrightarrow> r1 k = r2 k" by (rule bexE)
    from r2 obtain r3 where r3: "r3 \<in> set (rws ?d)"
      and e3: "r2 = r3(''ln_profits'' := log_cell (r3 ''profit_before_tax''))" by auto
    note fr = ln_image_fresh [OF subset_refl [of "set controls"]]
    have p: "r1 ''profit_before_tax'' = r2 ''profit_before_tax''" by (rule e2 [rule_format, OF fr(1)])
    have t: "r1 ''ETR'' = r2 ''ETR''" by (rule e2 [rule_format, OF fr(2)])
    have l: "r1 ''ln_profits'' = r2 ''ln_profits''" by (rule e2 [rule_format, OF fr(4)])
    from filtered_data_rows [OF r3] obtain pp ee where
      v: "r3 ''profit_before_tax'' = Num pp" "0 < pp" "r3 ''ETR'' = Num ee" "0 \<le> ee" "ee < 0.5"
      by blast
    have "r ''profit_before_tax'' = Num pp" using e1 p e3 v by simp
    moreover have "r ''ETR'' = Num ee" using e1 t e3 v by simp
    moreover have "r ''ETR_sq'' = Num (ee * ee)" using e1 t e3 v by (simp add: power2_eq_square)
    moreover have "r ''ln_profits'' = Num (ln pp)" using e1 l e3 v by simp
    ultimately show ?thesis using v by (simp add: base_row_ok_def)
  qed
  then show ?thesis by (simp add: list_all_iff)
qed

lemma prepare_data_ok:
  assumes "prepare_data_and_analyze imp df tax_col method = Inr (Some base, msg)"
  shows "list_all (base_row_ok 0 0.5) (rws base)"
proof -
  from assms obtain data where "standard_filters data tax_col = Inr (Some base, msg)"
    unfolding prepare_data_and_analyze_def Let_def
    by (auto split: if_splits)
  then show ?thesis by (rule standard_filters_ok)
qed

lemma prepare_datasets_ok:
  assumes "prepare_datasets df tax_col = Inr (Some (base1, base2, vcs))"
  shows "list_all (base_row_ok 0 0.5) (rws base1) \<and> list_all (base_row_ok 0 0.5) (rws base2)"
proof -
  from assms have c: "has_col df tax_col" "has_col df ''profit_before_tax''"
    by (auto simp: prepare_datasets_def split: if_splits)
  let ?b = "base_core_an tax_col (dropna [''profit_before_tax'', tax_col] df)"
  let ?v = "filter (\<lambda>ctrl. has_col ?b ctrl \<and> count_positive ctrl ?b > 5) controls"
  from assms [unfolded prepare_datasets_eq [OF c] Let_def]
  have e: "?b = base1 \<and> filter_log ?v (dropna ?v ?b) = base2 \<and> ?v = vcs"
    unfolding sum.inject option.inject prod.inject .
  have 1: "\<forall>r\<in>set (rws ?b). base_row_ok 0 0.5 r" using base_core_an_ok by blast
  then have 2: "\<forall>r\<in>set (rws (dropna ?v ?b)). base_row_ok 0 0.5 r" by simp
  have 3: "\<forall>r\<in>set (rws (filter_log ?v (dropna ?v ?b))). base_row_ok 0 0.5 r"
    using filter_log_ok [OF filter_controls_subset 2] by blast
  from e 1 3 show ?thesis by (auto simp: list_all_iff)
qed

lemma firm_simps [simp]:
  "firm u p t e a r ''upe_name'' = Str u"
  "firm u p t e a r ''profit_before_tax'' = p"
  "firm u p t e a r ''tax_accrued'' = t"
  "firm u p t e a r ''employees'' = e"
  "firm u p t e a r ''tangible_assets'' = a"
  "firm u p t e a r ''related_revenues'' = r"
  "firm u p t e a r ''tax_paid'' = NaN"
  by (simp_all add: firm_def)

lemma study_frame_cols:
  "has_col study_frame ''upe_name''" "has_col study_frame ''profit_before_tax''"
  "has_col study_frame ''tax_accrued''" "has_col study_frame ''employees''"
  "has_col study_frame ''tangible_assets''" "has_col study_frame ''related_revenues''"
  by (simp_all add: has_col_def study_frame_def)

lemma study_frame_numeric: "numeric_frame study_frame"
  by (simp add: numeric_frame_def study_frame_def numeric_cols_def controls_def)

lemma study_frame_controls: "filter (has_col study_frame) controls = controls"
  by (simp add: controls_def study_frame_cols)

lemma coerce_base_cols_id:
  assumes "numeric_frame df" "tax_col \<in> {''tax_accrued'', ''tax_paid''}"
    "has_col df ''profit_before_tax''" "has_col df tax_col"
  shows "fold (coerce_col parse) [''profit_before_tax'', tax_col] df = df"
proof (rule fold_coerce_id, rule ballI, rule conjI)
  have tn: "tax_col \<in> set numeric_cols" using assms(2) by (auto simp: numeric_cols_def)
  have pn: "''profit_before_tax'' \<in> set numeric_cols" by (simp add: numeric_cols_def)
  fix c assume c: "c \<in> set [''profit_before_tax'', tax_col]"
  then show "has_col df c" using assms(3,4) by auto
  from c have "c \<in> set numeric_cols" using tn pn by auto
  then show "\<forall>r\<in>set (rws df). \<not> is_str (r c)" using numeric_frameD [OF assms(1)] by blast
qed

section \<open>The source table across combinations\<close>

text \<open>
  Claim C9. Building the bases for one tax basis leaves a normalized source table
  unchanged: when the numeric columns of the table hold numbers or NaN only, the frame
  that \<open>create_global_clean_bases\<close> leaves behind (Germany and Italy baseline studies)
  is the frame it was given, so the next tax basis is processed from the same table.
\<close>

theorem source_table_unchanged:
  assumes "numeric_frame df" and "tax_col \<in> {''tax_accrued'', ''tax_paid''}"
  shows "(create_global_clean_bases_de parse df tax_col = Inr (df', gb1, gb2, lc) \<longrightarrow> df' = df) \<and>
         (create_global_clean_bases_it parse df tax_col = Inr (df'', gb1', gb2', lc') \<longrightarrow> df'' = df)"
proof (intro conjI impI)
  assume a: "create_global_clean_bases_de parse df tax_col = Inr (df', gb1, gb2, lc)"
  from create_de_parts(1,2,3) [OF a] coerce_numeric_frame [OF assms]
  show "df' = df" by simp
next
  assume a: "create_global_clean_bases_it parse df tax_col = Inr (df'', gb1', gb2', lc')"
  from create_it_parts(1,2,3) [OF a] coerce_numeric_frame [OF assms]
  show "df'' = df" by simp
qed

lemma study_de_result:
  "create_global_clean_bases_de parse study_frame ''tax_accrued'' =
     Inr (study_frame,
          base_core 0 0.5 ''tax_accrued'' (dropna [''profit_before_tax'', ''tax_accrued''] study_frame),
          filter_log controls (base_core 0 0.5 ''tax_accrued''
             (dropna ([''profit_before_tax'', ''tax_accrued''] @ controls) study_frame)),
          map (\<lambda>c. ''ln_'' @ c) controls)"
proof -
  have 1: "fold (coerce_col parse) [''profit_before_tax'', ''tax_accrued''] study_frame = study_frame"
    by (rule coerce_base_cols_id) (simp_all add: study_frame_numeric study_frame_cols)
  have 2: "fold (coerce_col parse) controls study_frame = study_frame"
    using coerce_numeric_frame [OF study_frame_numeric, of "''tax_accrued''" parse]
    unfolding 1 by (simp add: study_frame_cols controls_def)
  show ?thesis
    unfolding create_de_eq [OF study_frame_cols(2,3)] Let_def 1 study_frame_controls 2 ..
qed

lemma study_it_result:
  "create_global_clean_bases_it parse study_frame ''tax_accrued'' =
     Inr (study_frame,
          base_core 0 1 ''tax_accrued'' (dropna [''profit_before_tax'', ''tax_accrued''] study_frame),
          filter_log controls (base_core 0 1 ''tax_accrued''
             (dropna ([''profit_before_tax'', ''tax_accrued''] @ controls) study_frame)),
          map (\<lambda>c. ''ln_'' @ c) controls)"
proof -
  have 1: "fold (coerce_col parse) [''profit_before_tax'', ''tax_accrued''] study_frame = study_frame"
    by (rule coerce_base_cols_id) (simp_all add: study_frame_numeric study_frame_cols)
  have 2: "fold (coerce_col parse) controls study_frame = study_frame"
    using coerce_numeric_frame [OF study_frame_numeric, of "''tax_accrued''" parse]
    unfolding 1 by (simp add: study_frame_cols controls_def)
  show ?thesis
    unfolding create_it_eq [OF study_frame_cols(2,3)] Let_def 1 study_frame_controls 2 ..
qed

theorem source_table_unchanged_witness:
  "(\<exists>gb1 gb2 lc. create_global_clean_bases_de no_parse study_frame ''tax_accrued'' =
                   Inr (study_frame, gb1, gb2, lc)) \<and>
   (\<exists>gb1 gb2 lc. create_global_clean_bases_it no_parse study_frame ''tax_accrued'' =
                   Inr (study_frame, gb1, gb2, lc))"
proof -
  have t: "''tax_accrued'' \<in> {''tax_accrued'', ''tax_paid''}" by simp
  note T = source_table_unchanged [OF study_frame_numeric t, of no_parse]
  obtain a b c d where de: "create_global_clean_bases_de no_parse study_frame ''tax_accrued'' = Inr (a, b, c, d)"
    using study_de_result by blast
  obtain a' b' c' d' where it: "create_global_clean_bases_it no_parse study_frame ''tax_accrued'' = Inr (a', b', c', d')"
    using study_it_result by blast
  from T [of a b c d a' b' c' d'] de it have "a = study_frame" "a' = study_frame" by blast+
  with de it show ?thesis by blast
qed

text \<open>The hypothesis is needed: the two functions assign the coerced columns to the
  frame they are given, so a table that still holds a string in a numeric column is
  changed by the call.\<close>

lemma coercion_in_place:
  "\<exists>df' gb1 gb2 lc.
     create_global_clean_bases_de no_parse raw_frame ''tax_accrued'' = Inr (df', gb1, gb2, lc) \<and>
     column ''profit_before_tax'' raw_frame = [Str ''n/a''] \<and>
     column ''profit_before_tax'' df' = [NaN]"
proof -
  have c: "has_col raw_frame ''profit_before_tax''" "has_col raw_frame ''tax_accrued''"
    by (simp_all add: has_col_def raw_frame_def)
  show ?thesis
    unfolding create_de_eq [OF c] Let_def
    by (simp add: column_def coerce_col_def no_parse_def raw_frame_def controls_def has_col_def)
qed

lemma study_base1_length:
  "length (rws (base_core 0 0.5 ''tax_accrued''
      (dropna [''profit_before_tax'', ''tax_accrued''] study_frame))) = 5"
  by (simp add: base_core_def study_frame_def)

lemma study_base2_length:
  "length (rws (filter_log controls (base_core 0 0.5 ''tax_accrued''
      (dropna ([''profit_before_tax'', ''tax_accrued''] @ controls) study_frame)))) = 3"
  by (simp add: base_core_def study_frame_def controls_def)

section \<open>Invariants of the analysis bases\<close>

text \<open>
  Claim C4. Every row of every base that is built has a positive profit, an ETR inside
  the window, \<open>ETR_sq = ETR * ETR\<close> and \<open>ln_profits = ln profit_before_tax\<close>: Base 1
  and Base 2 of the Germany baseline study (window from 0 to 0.5), of the Italy baseline
  study (window from 0 to 1) and of analysis_script.py, and the base of the comprehensive
  study for every method and every imputer.
\<close>

theorem base_invariants:
  "(create_global_clean_bases_de parse df tax_col = Inr (df', gb1, gb2, lc) \<longrightarrow>
      list_all (base_row_ok 0 0.5) (rws gb1) \<and> list_all (base_row_ok 0 0.5) (rws gb2)) \<and>
   (create_global_clean_bases_it parse df tax_col = Inr (df'', gb1', gb2', lc') \<longrightarrow>
      list_all (base_row_ok 0 1) (rws gb1') \<and> list_all (base_row_ok 0 1) (rws gb2')) \<and>
   (prepare_datasets df tax_col = Inr (Some (base1, base2, vcs)) \<longrightarrow>
      list_all (base_row_ok 0 0.5) (rws base1) \<and> list_all (base_row_ok 0 0.5) (rws base2)) \<and>
   (prepare_data_and_analyze imp df tax_col method = Inr (Some data, msg) \<longrightarrow>
      list_all (base_row_ok 0 0.5) (rws data))"
proof (intro conjI impI)
  assume a: "create_global_clean_bases_de parse df tax_col = Inr (df', gb1, gb2, lc)"
  note p = create_de_parts [OF a]
  show "list_all (base_row_ok 0 0.5) (rws gb1)"
    unfolding p(4) by (rule base_core_all_ok)
  show "list_all (base_row_ok 0 0.5) (rws gb2)"
    unfolding p(5) by (rule filter_log_all_ok) (rule filter_controls_subset)
next
  assume a: "create_global_clean_bases_it parse df tax_col = Inr (df'', gb1', gb2', lc')"
  note p = create_it_parts [OF a]
  show "list_all (base_row_ok 0 1) (rws gb1')"
    unfolding p(4) by (rule base_core_all_ok)
  show "list_all (base_row_ok 0 1) (rws gb2')"
    unfolding p(5) by (rule filter_log_all_ok) (rule filter_controls_subset)
next
  assume a: "prepare_datasets df tax_col = Inr (Some (base1, base2, vcs))"
  from prepare_datasets_ok [OF a]
  show "list_all (base_row_ok 0 0.5) (rws base1)" "list_all (base_row_ok 0 0.5) (rws base2)"
    by blast+
next
  assume a: "prepare_data_and_analyze imp df tax_col method = Inr (Some data, msg)"
  then show "list_all (base_row_ok 0 0.5) (rws data)" by (rule prepare_data_ok)
qed

lemma study_it_base1_length:
  "length (rws (base_core 0 1 ''tax_accrued''
      (dropna [''profit_before_tax'', ''tax_accrued''] study_frame))) = 6"
  by (simp add: base_core_def study_frame_def)

lemma study_an_result:
  "prepare_datasets study_frame ''tax_accrued'' =
     Inr (Some (base_core_an ''tax_accrued'' (dropna [''profit_before_tax'', ''tax_accrued''] study_frame),
                base_core_an ''tax_accrued'' (dropna [''profit_before_tax'', ''tax_accrued''] study_frame),
                []))"
proof -
  let ?b = "base_core_an ''tax_accrued'' (dropna [''profit_before_tax'', ''tax_accrued''] study_frame)"
  have l: "length (rws ?b) = 5"
    by (simp add: base_core_an_def study_frame_def)
  have "count_positive c ?b \<le> 5" for c
    unfolding count_positive_def l [symmetric] by (rule length_filter_le)
  then have v: "filter (\<lambda>ctrl. has_col ?b ctrl \<and> count_positive ctrl ?b > 5) controls = []"
    by (simp add: filter_empty_conv not_less)
  have d: "dropna [] ?b = ?b" by (simp add: dropna_def)
  show ?thesis
    unfolding prepare_datasets_eq [OF study_frame_cols(3,2)] Let_def v filter_log.simps d ..
qed

lemma study_an_length:
  "length (rws (base_core_an ''tax_accrued''
      (dropna [''profit_before_tax'', ''tax_accrued''] study_frame))) = 5"
  by (simp add: base_core_an_def study_frame_def)

lemma study_cc_result:
  "\<exists>data. prepare_data_and_analyze imp study_frame ''tax_accrued'' ''CC'' = Inr (Some data, [])"
  by (simp add: prepare_data_and_analyze_def Let_def study_frame_cols controls_def standard_filters_eq)

lemma study_candidate_length: "length (rws (candidate_table study_frame ''tax_accrued'')) = 6"
  by (simp add: candidate_table_def Let_def select_cols_def replace_zero_def study_frame_def)

lemma study_imputation_result:
  "\<exists>data. prepare_data_and_analyze imp study_frame ''tax_accrued'' ''Imputation'' = Inr (Some data, [])"
  by (simp add: prepare_data_and_analyze_def Let_def study_frame_cols controls_def
      standard_filters_eq study_candidate_length)

theorem base_invariants_witness:
  "(\<exists>df' gb1 gb2 lc.
      create_global_clean_bases_de no_parse study_frame ''tax_accrued'' = Inr (df', gb1, gb2, lc) \<and>
      length (rws gb1) = 5 \<and> length (rws gb2) = 3 \<and>
      list_all (base_row_ok 0 0.5) (rws gb1) \<and> list_all (base_row_ok 0 0.5) (rws gb2)) \<and>
   (\<exists>df' gb1 gb2 lc.
      create_global_clean_bases_it no_parse study_frame ''tax_accrued'' = Inr (df', gb1, gb2, lc) \<and>
      length (rws gb1) = 6 \<and>
      list_all (base_row_ok 0 1) (rws gb1) \<and> list_all (base_row_ok 0 1) (rws gb2)) \<and>
   (\<exists>base1 base2 vcs.
      prepare_datasets study_frame ''tax_accrued'' = Inr (Some (base1, base2, vcs)) \<and>
      length (rws base1) = 5 \<and>
      list_all (base_row_ok 0 0.5) (rws base1) \<and> list_all (base_row_ok 0 0.5) (rws base2)) \<and>
   (\<exists>data. prepare_data_and_analyze identity_imputer study_frame ''tax_accrued'' ''CC'' = Inr (Some data, []) \<and>
      list_all (base_row_ok 0 0.5) (rws data)) \<and>
   (\<exists>data. prepare_data_and_analyze identity_imputer study_frame ''tax_accrued'' ''Imputation'' =
             Inr (Some data, []) \<and>
      list_all (base_row_ok 0 0.5) (rws data))"
proof -
  obtain d1 where cc: "prepare_data_and_analyze identity_imputer study_frame ''tax_accrued'' ''CC'' = Inr (Some d1, [])"
    using study_cc_result by blast
  obtain d2 where im: "prepare_data_and_analyze identity_imputer study_frame ''tax_accrued'' ''Imputation'' =
      Inr (Some d2, [])"
    using study_imputation_result by blast
  note de = study_de_result [of no_parse]
  note it = study_it_result [of no_parse]
  note an = study_an_result
  from base_invariants [THEN conjunct1, rule_format, OF de]
    base_invariants [THEN conjunct2, THEN conjunct1, rule_format, OF it]
    base_invariants [THEN conjunct2, THEN conjunct2, THEN conjunct1, rule_format, OF an]
    base_invariants [THEN conjunct2, THEN conjunct2, THEN conjunct2, rule_format, OF cc]
    base_invariants [THEN conjunct2, THEN conjunct2, THEN conjunct2, rule_format, OF im]
    de it an cc im study_base1_length study_base2_length study_it_base1_length study_an_length
  show ?thesis by blast
qed

section \<open>The minimum number of observations\<close>

lemma fitted_de: "fitted (run_regression_de ols df formula title) \<longleftrightarrow> ols formula df \<noteq> None"
  by (auto simp: fitted_def run_regression_de_def Let_def split: option.splits)

lemma fitted_it:
  "fitted (run_regression_it ols df formula title) \<longleftrightarrow> 5 \<le> length (rws df) \<and> ols formula df \<noteq> None"
  by (auto simp: fitted_def run_regression_it_def Let_def split: option.splits)

lemma fitted_an:
  "fitted (run_regression_an ols df formula title) \<longleftrightarrow> 5 \<le> length (rws df) \<and> ols formula df \<noteq> None"
  by (auto simp: fitted_def run_regression_an_def Let_def split: option.splits)

text \<open>
  Claim C5, as amended. The thresholds are fixed in the code. \<open>run_regression\<close> of the
  Italy baseline study and of analysis_script.py fits a model exactly when the base has
  at least 5 rows and the fit succeeds, and reports that the data are not enough below 5
  rows. \<open>main\<close> of the Germany baseline study runs a regression on a base only when it
  has more than 10 rows, and adds no block to the report otherwise. A base of 4 rows is
  never fitted.
\<close>

theorem regression_thresholds:
  "(fitted (run_regression_it ols df formula title) \<longleftrightarrow>
      5 \<le> length (rws df) \<and> ols formula df \<noteq> None) \<and>
   (fitted (run_regression_an ols df formula title) \<longleftrightarrow>
      5 \<le> length (rws df) \<and> ols formula df \<noteq> None) \<and>
   (length (rws df) < 5 \<longrightarrow>
      run_regression_it ols df formula title = [Title title, NotEnoughData] \<and>
      run_regression_an ols df formula title = [Title title, NotEnoughData]) \<and>
   (length (rws b1) \<le> 10 \<and> length (rws b2) \<le> 10 \<longrightarrow>
      main_stage_de ols label b1 b2 ctrl_names = [[Title (''*** Germany '' @ label @ '' TAX ***'')]]) \<and>
   (list_ex fitted (main_stage_de ols label b1 b2 ctrl_names) \<longrightarrow>
      10 < length (rws b1) \<or> 10 < length (rws b2)) \<and>
   (10 < length (rws b1) \<and> ols ''ln_profits ~ ETR'' b1 \<noteq> None \<longrightarrow>
      list_ex fitted (main_stage_de ols label b1 b2 ctrl_names))"
proof (intro conjI impI)
  show "fitted (run_regression_it ols df formula title) \<longleftrightarrow>
      5 \<le> length (rws df) \<and> ols formula df \<noteq> None" by (rule fitted_it)
  show "fitted (run_regression_an ols df formula title) \<longleftrightarrow>
      5 \<le> length (rws df) \<and> ols formula df \<noteq> None" by (rule fitted_an)
next
  assume "length (rws df) < 5"
  then show "run_regression_it ols df formula title = [Title title, NotEnoughData]"
    "run_regression_an ols df formula title = [Title title, NotEnoughData]"
    by (simp_all add: run_regression_it_def run_regression_an_def)
next
  assume "length (rws b1) \<le> 10 \<and> length (rws b2) \<le> 10"
  then show "main_stage_de ols label b1 b2 ctrl_names = [[Title (''*** Germany '' @ label @ '' TAX ***'')]]"
    by (simp add: main_stage_de_def)
next
  assume "list_ex fitted (main_stage_de ols label b1 b2 ctrl_names)"
  then show "10 < length (rws b1) \<or> 10 < length (rws b2)"
    by (simp add: main_stage_de_def fitted_def split: if_splits)
next
  assume "10 < length (rws b1) \<and> ols ''ln_profits ~ ETR'' b1 \<noteq> None"
  then show "list_ex fitted (main_stage_de ols label b1 b2 ctrl_names)"
    by (simp add: main_stage_de_def fitted_de)
qed

theorem regression_thresholds_witness:
  "run_regression_it quad_fit (etr_frame [0.1, 0.2, 0.3, 0.4]) ''ln_profits ~ ETR'' ''B1'' =
     [Title ''B1'', NotEnoughData] \<and>
   run_regression_an quad_fit (etr_frame [0.1, 0.2, 0.3, 0.4]) ''ln_profits ~ ETR'' ''M1'' =
     [Title ''M1'', NotEnoughData] \<and>
   main_stage_de quad_fit ''ACCRUED'' (etr_frame [0.1, 0.2, 0.3, 0.4]) (etr_frame []) [] =
     [[Title ''*** Germany ACCRUED TAX ***'']] \<and>
   fitted (run_regression_it quad_fit (etr_frame [0, 0.1, 0.2, 0.3, 0.49]) ''ln_profits ~ ETR'' ''B1'') \<and>
   list_ex fitted (main_stage_de quad_fit ''ACCRUED''
     (etr_frame [0, 0.01, 0.02, 0.03, 0.04, 0.05, 0.06, 0.07, 0.08, 0.09, 0.1]) (etr_frame []) [])"
  using regression_thresholds [of quad_fit "etr_frame [0.1, 0.2, 0.3, 0.4]" "''ln_profits ~ ETR''" "''B1''"
      "etr_frame [0.1, 0.2, 0.3, 0.4]" "etr_frame []" "''ACCRUED''" "[]"]
    regression_thresholds [of quad_fit "etr_frame [0.1, 0.2, 0.3, 0.4]" "''ln_profits ~ ETR''" "''M1''"
      "etr_frame [0.1, 0.2, 0.3, 0.4]" "etr_frame []" "''ACCRUED''" "[]"]
    regression_thresholds [of quad_fit "etr_frame [0, 0.1, 0.2, 0.3, 0.49]" "''ln_profits ~ ETR''" "''B1''"
      "etr_frame [0, 0.01, 0.02, 0.03, 0.04, 0.05, 0.06, 0.07, 0.08, 0.09, 0.1]" "etr_frame []" "''ACCRUED''" "[]"]
  by (simp add: etr_frame_def quad_fit_def)

text \<open>A base of exactly 10 rows is not fitted by the Germany baseline study, although
  the fit itself would succeed.\<close>

theorem ten_rows_counterexample:
  "length (rws (etr_frame [0, 0.01, 0.02, 0.03, 0.04, 0.05, 0.06, 0.07, 0.08, 0.09])) = 10 \<and>
   quad_fit ''ln_profits ~ ETR''
     (etr_frame [0, 0.01, 0.02, 0.03, 0.04, 0.05, 0.06, 0.07, 0.08, 0.09]) =
     Some [(''Intercept'', 1), (''ETR'', - 0.4), (''ETR_sq'', 0.8)] \<and>
   main_stage_de quad_fit ''ACCRUED''
     (etr_frame [0, 0.01, 0.02, 0.03, 0.04, 0.05, 0.06, 0.07, 0.08, 0.09])
     (etr_frame [0, 0.01, 0.02, 0.03, 0.04, 0.05, 0.06, 0.07, 0.08, 0.09]) [] =
     [[Title ''*** Germany ACCRUED TAX ***'']]"
  by (simp add: main_stage_de_def etr_frame_def quad_fit_def)

lemma create_de_no_log_error:
  "create_global_clean_bases_de parse df tax_col \<noteq> Inl LogOfNonPositive"
proof (cases "has_col df ''profit_before_tax'' \<and> has_col df tax_col")
  case True
  then show ?thesis by (simp add: create_de_eq Let_def)
next
  case False
  then show ?thesis by (simp add: create_global_clean_bases_de_def)
qed

lemma prepare_datasets_no_log_error:
  "prepare_datasets df tax_col \<noteq> Inl LogOfNonPositive"
proof (cases "has_col df tax_col \<and> has_col df ''profit_before_tax''")
  case True
  then show ?thesis by (simp add: prepare_datasets_eq Let_def)
next
  case False
  then show ?thesis by (auto simp: prepare_datasets_def)
qed

lemma prepare_datasets_controls:
  assumes "prepare_datasets df tax_col = Inr (Some (base1, base2, vcs))"
  shows "vcs = filter (\<lambda>c. has_col df c \<and> 5 < count_positive c base1) controls"
    and "c \<in> set controls \<Longrightarrow> \<forall>r\<in>set (rws df). r c = Num 0 \<Longrightarrow> c \<notin> set vcs"
proof -
  from assms have h: "has_col df tax_col" "has_col df ''profit_before_tax''"
    by (auto simp: prepare_datasets_def split: if_splits)
  let ?b = "base_core_an tax_col (dropna [''profit_before_tax'', tax_col] df)"
  let ?v = "filter (\<lambda>ctrl. has_col ?b ctrl \<and> count_positive ctrl ?b > 5) controls"
  from assms [unfolded prepare_datasets_eq [OF h] Let_def]
  have e: "?b = base1 \<and> filter_log ?v (dropna ?v ?b) = base2 \<and> ?v = vcs"
    unfolding sum.inject option.inject prod.inject .
  then have b: "base1 = ?b" and v: "vcs = ?v" by blast+
  have "?v = filter (\<lambda>c. has_col df c \<and> 5 < count_positive c ?b) controls"
    by (rule filter_cong) (simp_all add: has_col_base_core_an)
  then show "vcs = filter (\<lambda>c. has_col df c \<and> 5 < count_positive c base1) controls"
    unfolding v b .
  assume c: "c \<in> set controls" and z: "\<forall>r\<in>set (rws df). r c = Num 0"
  have "count_positive c ?b = 0" using c z by (rule count_positive_zero)
  then show "c \<notin> set vcs" unfolding v by simp
qed

section \<open>The returned control list\<close>

text \<open>
  Claim C6, as amended. \<open>prepare_datasets\<close> of analysis_script.py returns a control
  exactly when its column exists and more than 5 rows of Base 1 have it positive, so a
  control whose column is zero in every row is not returned.
  \<open>create_global_clean_bases\<close> of the Germany baseline study returns \<open>ln_c\<close> for every
  control \<open>c\<close> whose column exists, whatever its values. Neither function takes the
  logarithm of a non-positive number.
\<close>

theorem returned_controls:
  "(prepare_datasets df tax_col = Inr (Some (base1, base2, vcs)) \<longrightarrow>
      vcs = filter (\<lambda>c. has_col df c \<and> 5 < count_positive c base1) controls \<and>
      (\<forall>c\<in>set controls. (\<forall>r\<in>set (rws df). r c = Num 0) \<longrightarrow> c \<notin> set vcs)) \<and>
   prepare_datasets df tax_col \<noteq> Inl LogOfNonPositive \<and>
   (create_global_clean_bases_de parse df tax_col = Inr (df', gb1, gb2, lc) \<longrightarrow>
      lc = map (\<lambda>c. ''ln_'' @ c) (filter (has_col df) controls)) \<and>
   create_global_clean_bases_de parse df tax_col \<noteq> Inl LogOfNonPositive"
proof (intro conjI impI ballI)
  assume a: "prepare_datasets df tax_col = Inr (Some (base1, base2, vcs))"
  show "vcs = filter (\<lambda>c. has_col df c \<and> 5 < count_positive c base1) controls"
    by (rule prepare_datasets_controls(1) [OF a])
  fix c assume "c \<in> set controls" "\<forall>r\<in>set (rws df). r c = Num 0"
  then show "c \<notin> set vcs" by (rule prepare_datasets_controls(2) [OF a])
next
  show "prepare_datasets df tax_col \<noteq> Inl LogOfNonPositive"
    by (rule prepare_datasets_no_log_error)
next
  assume a: "create_global_clean_bases_de parse df tax_col = Inr (df', gb1, gb2, lc)"
  note p = create_de_parts [OF a]
  have "filter (\<lambda>k. k \<in> {''profit_before_tax'', tax_col} \<or> has_col df k) controls =
        filter (has_col df) controls"
    by (rule filter_cong) (use p(1,2) in auto)
  with p(6) show "lc = map (\<lambda>c. ''ln_'' @ c) (filter (has_col df) controls)" by simp
next
  show "create_global_clean_bases_de parse df tax_col \<noteq> Inl LogOfNonPositive"
    by (rule create_de_no_log_error)
qed

lemma zero_frame_cols:
  "has_col zero_employees_frame ''profit_before_tax''" "has_col zero_employees_frame ''tax_accrued''"
  "has_col zero_employees_frame ''employees''" "has_col zero_employees_frame ''tangible_assets''"
  "has_col zero_employees_frame ''related_revenues''"
  by (simp_all add: has_col_def zero_employees_frame_def)

lemma zero_frame_numeric: "numeric_frame zero_employees_frame"
  by (simp add: numeric_frame_def zero_employees_frame_def numeric_cols_def controls_def)

lemma zero_frame_controls: "filter (has_col zero_employees_frame) controls = controls"
  by (simp add: controls_def zero_frame_cols)

lemma zero_frame_employees:
  "column ''employees'' zero_employees_frame = [Num 0, Num 0, Num 0, Num 0, Num 0, Num 0]"
  by (simp add: column_def zero_employees_frame_def)

lemma zero_de_result:
  "create_global_clean_bases_de parse zero_employees_frame ''tax_accrued'' =
     Inr (zero_employees_frame,
          base_core 0 0.5 ''tax_accrued''
            (dropna [''profit_before_tax'', ''tax_accrued''] zero_employees_frame),
          filter_log controls (base_core 0 0.5 ''tax_accrued''
             (dropna ([''profit_before_tax'', ''tax_accrued''] @ controls) zero_employees_frame)),
          map (\<lambda>c. ''ln_'' @ c) controls)"
proof -
  have 1: "fold (coerce_col parse) [''profit_before_tax'', ''tax_accrued''] zero_employees_frame =
           zero_employees_frame"
    by (rule coerce_base_cols_id) (simp_all add: zero_frame_numeric zero_frame_cols)
  have 2: "fold (coerce_col parse) controls zero_employees_frame = zero_employees_frame"
    using coerce_numeric_frame [OF zero_frame_numeric, of "''tax_accrued''" parse]
    unfolding 1 by (simp add: zero_frame_cols controls_def)
  show ?thesis
    unfolding create_de_eq [OF zero_frame_cols(1,2)] Let_def 1 zero_frame_controls 2 ..
qed

lemma zero_base2_empty:
  "rws (filter_log controls (base_core 0 0.5 ''tax_accrued''
      (dropna ([''profit_before_tax'', ''tax_accrued''] @ controls) zero_employees_frame))) = []"
  by (simp add: base_core_def zero_employees_frame_def controls_def)

text \<open>With an employees column that is zero in every row, the Germany baseline study
  still returns \<open>ln_employees\<close>, and Base 2 is empty.\<close>

theorem zero_control_counterexample:
  "column ''employees'' zero_employees_frame = [Num 0, Num 0, Num 0, Num 0, Num 0, Num 0] \<and>
   (\<exists>df' gb1 gb2.
      create_global_clean_bases_de no_parse zero_employees_frame ''tax_accrued'' =
        Inr (df', gb1, gb2, [''ln_employees'', ''ln_tangible_assets'', ''ln_related_revenues'']) \<and>
      rws gb2 = [])"
  using zero_frame_employees zero_de_result [of no_parse] zero_base2_empty
  by (simp add: controls_def)

lemma zero_an_base1_length:
  "length (rws (base_core_an ''tax_accrued''
      (dropna [''profit_before_tax'', ''tax_accrued''] zero_employees_frame))) = 6"
  by (simp add: base_core_an_def zero_employees_frame_def)

lemma zero_an_counts:
  "count_positive ''employees'' (base_core_an ''tax_accrued''
      (dropna [''profit_before_tax'', ''tax_accrued''] zero_employees_frame)) = 0"
  "count_positive ''tangible_assets'' (base_core_an ''tax_accrued''
      (dropna [''profit_before_tax'', ''tax_accrued''] zero_employees_frame)) = 6"
  "count_positive ''related_revenues'' (base_core_an ''tax_accrued''
      (dropna [''profit_before_tax'', ''tax_accrued''] zero_employees_frame)) = 6"
  by (simp_all add: count_positive_def base_core_an_def zero_employees_frame_def)

lemma zero_an_controls:
  "filter (\<lambda>c. has_col zero_employees_frame c \<and>
      5 < count_positive c (base_core_an ''tax_accrued''
            (dropna [''profit_before_tax'', ''tax_accrued''] zero_employees_frame))) controls =
   [''tangible_assets'', ''related_revenues'']"
  by (simp add: controls_def zero_frame_cols zero_an_counts)

theorem returned_controls_witness:
  "(\<exists>base1 base2.
      prepare_datasets zero_employees_frame ''tax_accrued'' =
        Inr (Some (base1, base2, [''tangible_assets'', ''related_revenues''])) \<and>
      length (rws base1) = 6) \<and>
   (\<exists>df' gb1 gb2.
      create_global_clean_bases_de no_parse zero_employees_frame ''tax_accrued'' =
        Inr (df', gb1, gb2, [''ln_employees'', ''ln_tangible_assets'', ''ln_related_revenues'']))"
proof -
  obtain b1 b2 vcs where
    an: "prepare_datasets zero_employees_frame ''tax_accrued'' = Inr (Some (b1, b2, vcs))"
    and b1: "b1 = base_core_an ''tax_accrued''
            (dropna [''profit_before_tax'', ''tax_accrued''] zero_employees_frame)"
    using prepare_datasets_eq [OF zero_frame_cols(2,1)] by (simp add: Let_def)
  obtain df' gb1 gb2 lc where
    de: "create_global_clean_bases_de no_parse zero_employees_frame ''tax_accrued'' =
         Inr (df', gb1, gb2, lc)"
    using zero_de_result by blast
  note T = returned_controls [of zero_employees_frame "''tax_accrued''" b1 b2 vcs no_parse df' gb1 gb2 lc]
  from T an have "vcs = filter (\<lambda>c. has_col zero_employees_frame c \<and> 5 < count_positive c b1) controls"
    by blast
  then have v: "vcs = [''tangible_assets'', ''related_revenues'']"
    unfolding b1 zero_an_controls .
  from T de have "lc = map (\<lambda>c. ''ln_'' @ c) (filter (has_col zero_employees_frame) controls)"
    by blast
  then have l: "lc = [''ln_employees'', ''ln_tangible_assets'', ''ln_related_revenues'']"
    unfolding zero_frame_controls by (simp add: controls_def)
  from an de v l b1 zero_an_base1_length show ?thesis by blast
qed

lemma rws_candidate_table:
  "rws (candidate_table df tax_col) =
     map (candidate_row tax_col) (filter (\<lambda>r. r ''upe_name'' = Str ''Italy'') (rws df))"
  unfolding candidate_table_def Let_def replace_zero_def select_cols_def
  by (simp add: candidate_row_def fun_eq_iff)

lemma columns_candidate_table:
  "columns (candidate_table df tax_col) = [''profit_before_tax'', tax_col] @ controls"
  by (simp add: candidate_table_def Let_def replace_zero_def select_cols_def)

lemma candidate_row_nonzero: "c \<in> set controls \<Longrightarrow> candidate_row tax_col r c \<noteq> Num 0"
  by (simp add: candidate_row_def)

lemma candidate_row_negative:
  "c \<in> set controls \<Longrightarrow> r c = Num x \<Longrightarrow> x < 0 \<Longrightarrow> candidate_row tax_col r c = Num x"
  by (simp add: candidate_row_def)

lemma prepare_imputation_eq:
  assumes "has_col df ''upe_name''"
    and "list_all (has_col df) ([''profit_before_tax'', tax_col] @ controls)"
  shows "prepare_data_and_analyze imp df tax_col ''Imputation'' =
     (if 5 < length (rws (candidate_table df tax_col)) then
        standard_filters
          \<lparr>columns = [''profit_before_tax'', tax_col] @ controls,
           rws = imp imputer_settings (candidate_table df tax_col)\<rparr> tax_col
      else Inr (None, ''Insufficient data''))"
  using assms by (simp add: prepare_data_and_analyze_def Let_def)

lemma prepare_cc_eq:
  assumes "has_col df ''upe_name''"
    and "list_all (has_col df) ([''profit_before_tax'', tax_col] @ controls)"
  shows "prepare_data_and_analyze imp df tax_col ''CC'' =
     standard_filters (complete_cases (candidate_table df tax_col)) tax_col"
  using assms by (simp add: prepare_data_and_analyze_def Let_def)

section \<open>Complete cases and imputation\<close>

text \<open>
  Claim C7, as amended. Before the method is applied, every control value that equals
  zero in the rows of the target country is replaced by NaN; every other value, also a
  negative one, is kept. Under the method \<open>Imputation\<close>, with more than 5 rows, the
  imputer is fit on exactly that table.
\<close>

theorem zero_controls_absent_before_imputation:
  "rws (candidate_table df tax_col) =
     map (\<lambda>r c. if c \<in> set controls then (if r c = Num 0 then NaN else r c)
                else if c = ''profit_before_tax'' \<or> c = tax_col then r c
                else NaN)
       (filter (\<lambda>r. r ''upe_name'' = Str ''Italy'') (rws df)) \<and>
   (\<forall>r\<in>set (rws (candidate_table df tax_col)). \<forall>c\<in>set controls. r c \<noteq> Num 0) \<and>
   (has_col df ''upe_name'' \<and> list_all (has_col df) ([''profit_before_tax'', tax_col] @ controls) \<and>
    5 < length (rws (candidate_table df tax_col)) \<longrightarrow>
      prepare_data_and_analyze imp df tax_col ''Imputation'' =
        standard_filters
          \<lparr>columns = [''profit_before_tax'', tax_col] @ controls,
           rws = imp imputer_settings (candidate_table df tax_col)\<rparr> tax_col)"
proof (intro conjI impI ballI)
  show "rws (candidate_table df tax_col) =
     map (\<lambda>r c. if c \<in> set controls then (if r c = Num 0 then NaN else r c)
                else if c = ''profit_before_tax'' \<or> c = tax_col then r c
                else NaN)
       (filter (\<lambda>r. r ''upe_name'' = Str ''Italy'') (rws df))"
    unfolding rws_candidate_table candidate_row_def ..
next
  fix r c assume "r \<in> set (rws (candidate_table df tax_col))" "c \<in> set controls"
  then show "r c \<noteq> Num 0"
    unfolding rws_candidate_table using candidate_row_nonzero by auto
next
  assume "has_col df ''upe_name'' \<and> list_all (has_col df) ([''profit_before_tax'', tax_col] @ controls) \<and>
    5 < length (rws (candidate_table df tax_col))"
  then show "prepare_data_and_analyze imp df tax_col ''Imputation'' =
        standard_filters
          \<lparr>columns = [''profit_before_tax'', tax_col] @ controls,
           rws = imp imputer_settings (candidate_table df tax_col)\<rparr> tax_col"
    by (simp only: prepare_imputation_eq if_True)
qed

lemma study_candidate_employees:
  "column ''employees'' (candidate_table study_frame ''tax_accrued'') =
     [NaN, Num (- 3), Num 5, Num 8, Num 9, Num 4]"
  by (simp add: column_def rws_candidate_table candidate_row_def study_frame_def controls_def)

lemma study_all_cols:
  "list_all (has_col study_frame) ([''profit_before_tax'', ''tax_accrued''] @ controls)"
  by (simp add: controls_def study_frame_cols)

theorem zero_controls_absent_witness:
  "column ''employees'' (candidate_table study_frame ''tax_accrued'') =
     [NaN, Num (- 3), Num 5, Num 8, Num 9, Num 4] \<and>
   prepare_data_and_analyze identity_imputer study_frame ''tax_accrued'' ''Imputation'' =
     standard_filters
       \<lparr>columns = [''profit_before_tax'', ''tax_accrued''] @ controls,
        rws = identity_imputer imputer_settings (candidate_table study_frame ''tax_accrued'')\<rparr>
       ''tax_accrued''"
  using zero_controls_absent_before_imputation [of study_frame "''tax_accrued''" identity_imputer]
    study_candidate_employees study_all_cols study_frame_cols(1) study_candidate_length
  by simp

text \<open>A negative control value reaches the imputer as it is.\<close>

theorem negative_control_counterexample:
  "column ''employees'' study_frame = [Num 0, Num (- 3), Num 5, Num 8, Num 9, Num 4, Num 5] \<and>
   column ''employees'' (candidate_table study_frame ''tax_accrued'') =
     [NaN, Num (- 3), Num 5, Num 8, Num 9, Num 4] \<and>
   prepare_data_and_analyze identity_imputer study_frame ''tax_accrued'' ''Imputation'' =
     standard_filters
       \<lparr>columns = [''profit_before_tax'', ''tax_accrued''] @ controls,
        rws = identity_imputer imputer_settings (candidate_table study_frame ''tax_accrued'')\<rparr>
       ''tax_accrued''"
proof -
  have "column ''employees'' study_frame = [Num 0, Num (- 3), Num 5, Num 8, Num 9, Num 4, Num 5]"
    by (simp add: column_def study_frame_def)
  moreover note study_candidate_employees
  moreover have "prepare_data_and_analyze identity_imputer study_frame ''tax_accrued'' ''Imputation'' =
     standard_filters
       \<lparr>columns = [''profit_before_tax'', ''tax_accrued''] @ controls,
        rws = identity_imputer imputer_settings (candidate_table study_frame ''tax_accrued'')\<rparr>
       ''tax_accrued''"
    by (simp only: prepare_imputation_eq [OF study_frame_cols(1) study_all_cols]
        study_candidate_length) simp
  ultimately show ?thesis by blast
qed

lemma candidate_row_base:
  assumes "tax_col \<notin> set controls"
  shows "candidate_row tax_col r ''profit_before_tax'' = r ''profit_before_tax''"
    and "candidate_row tax_col r tax_col = r tax_col"
  using assms by (auto simp: candidate_row_def controls_def)

lemma candidate_row_control:
  "c \<in> set controls \<Longrightarrow>
   \<not> isna (candidate_row tax_col r c) \<longleftrightarrow> \<not> isna (r c) \<and> r c \<noteq> Num 0"
  by (simp add: candidate_row_def)

lemma candidate_row_complete:
  assumes "tax_col \<notin> set controls"
  shows "list_all (\<lambda>c. \<not> isna (candidate_row tax_col r c)) ([''profit_before_tax'', tax_col] @ controls) \<longleftrightarrow>
         \<not> isna (r ''profit_before_tax'') \<and> \<not> isna (r tax_col) \<and>
         list_all (\<lambda>c. \<not> isna (r c) \<and> r c \<noteq> Num 0) controls"
proof -
  have "list_all (\<lambda>c. \<not> isna (candidate_row tax_col r c)) controls \<longleftrightarrow>
        list_all (\<lambda>c. \<not> isna (r c) \<and> r c \<noteq> Num 0) controls"
    unfolding list_all_iff using candidate_row_control by blast
  then show ?thesis by (simp add: candidate_row_base [OF assms])
qed

lemma candidate_row_select:
  assumes "tax_col \<notin> set controls" "list_all (\<lambda>c. \<not> isna (r c) \<and> r c \<noteq> Num 0) controls"
  shows "candidate_row tax_col r =
         (\<lambda>c. if c \<in> set ([''profit_before_tax'', tax_col] @ controls) then r c else NaN)"
proof
  fix c
  show "candidate_row tax_col r c =
        (if c \<in> set ([''profit_before_tax'', tax_col] @ controls) then r c else NaN)"
    using assms(2) by (auto simp: candidate_row_def list_all_iff)
qed

text \<open>
  Claim C10. Under the method \<open>CC\<close> of the comprehensive study, the rows that survive
  listwise deletion are exactly the rows of the target country whose profit, tax basis
  and three controls are present and whose controls are all different from zero.
\<close>

theorem complete_case_rows:
  assumes "tax_col \<notin> set controls"
  shows "rws (complete_cases (candidate_table df tax_col)) =
           map (\<lambda>r c. if c \<in> set ([''profit_before_tax'', tax_col] @ controls) then r c else NaN)
             (filter (\<lambda>r. r ''upe_name'' = Str ''Italy'' \<and>
                          \<not> isna (r ''profit_before_tax'') \<and> \<not> isna (r tax_col) \<and>
                          list_all (\<lambda>c. \<not> isna (r c) \<and> r c \<noteq> Num 0) controls) (rws df)) \<and>
         (has_col df ''upe_name'' \<and> list_all (has_col df) ([''profit_before_tax'', tax_col] @ controls) \<longrightarrow>
            prepare_data_and_analyze imp df tax_col ''CC'' =
              standard_filters (complete_cases (candidate_table df tax_col)) tax_col)"
proof (intro conjI impI)
  let ?cols = "[''profit_before_tax'', tax_col] @ controls"
  let ?Q = "\<lambda>r. r ''upe_name'' = Str ''Italy'' \<and>
                          \<not> isna (r ''profit_before_tax'') \<and> \<not> isna (r tax_col) \<and>
                          list_all (\<lambda>c. \<not> isna (r c) \<and> r c \<noteq> Num 0) controls"
  have "rws (complete_cases (candidate_table df tax_col)) =
        filter (\<lambda>r. list_all (\<lambda>c. \<not> isna (r c)) ?cols) (map (candidate_row tax_col)
          (filter (\<lambda>r. r ''upe_name'' = Str ''Italy'') (rws df)))"
    unfolding complete_cases_def rws_dropna columns_candidate_table rws_candidate_table ..
  also have "\<dots> = map (candidate_row tax_col)
          (filter (\<lambda>r. list_all (\<lambda>c. \<not> isna (candidate_row tax_col r c)) ?cols)
             (filter (\<lambda>r. r ''upe_name'' = Str ''Italy'') (rws df)))"
    unfolding filter_map o_def ..
  also have "\<dots> = map (candidate_row tax_col) (filter ?Q (rws df))"
    unfolding candidate_row_complete [OF assms] filter_filter ..
  also have "\<dots> = map (\<lambda>r c. if c \<in> set ?cols then r c else NaN) (filter ?Q (rws df))"
    by (rule map_cong [OF refl]) (simp add: candidate_row_select [OF assms])
  finally show "rws (complete_cases (candidate_table df tax_col)) =
           map (\<lambda>r c. if c \<in> set ?cols then r c else NaN) (filter ?Q (rws df))" .
next
  assume "has_col df ''upe_name'' \<and> list_all (has_col df) ([''profit_before_tax'', tax_col] @ controls)"
  then show "prepare_data_and_analyze imp df tax_col ''CC'' =
              standard_filters (complete_cases (candidate_table df tax_col)) tax_col"
    by (simp only: prepare_cc_eq)
qed

lemma study_cc_columns:
  "column ''employees'' (complete_cases (candidate_table study_frame ''tax_accrued'')) =
     [Num (- 3), Num 5, Num 8, Num 9]"
  "column ''profit_before_tax'' (complete_cases (candidate_table study_frame ''tax_accrued'')) =
     [Num 200, Num 100, Num 400, Num 100]"
  by (simp_all add: column_def complete_cases_def columns_candidate_table rws_candidate_table
      candidate_row_def study_frame_def controls_def)

theorem complete_case_rows_witness:
  "column ''employees'' (complete_cases (candidate_table study_frame ''tax_accrued'')) =
     [Num (- 3), Num 5, Num 8, Num 9] \<and>
   column ''profit_before_tax'' (complete_cases (candidate_table study_frame ''tax_accrued'')) =
     [Num 200, Num 100, Num 400, Num 100] \<and>
   length (filter (\<lambda>r. r ''upe_name'' = Str ''Italy'' \<and>
                        \<not> isna (r ''profit_before_tax'') \<and> \<not> isna (r ''tax_accrued'') \<and>
                        list_all (\<lambda>c. \<not> isna (r c) \<and> r c \<noteq> Num 0) controls) (rws study_frame)) = 4 \<and>
   prepare_data_and_analyze identity_imputer study_frame ''tax_accrued'' ''CC'' =
     standard_filters (complete_cases (candidate_table study_frame ''tax_accrued'')) ''tax_accrued''"
proof -
  have t: "''tax_accrued'' \<notin> set controls" by (simp add: controls_def)
  note T = complete_case_rows [OF t, of study_frame identity_imputer]
  from T have "length (rws (complete_cases (candidate_table study_frame ''tax_accrued''))) =
      length (filter (\<lambda>r. r ''upe_name'' = Str ''Italy'' \<and>
                        \<not> isna (r ''profit_before_tax'') \<and> \<not> isna (r ''tax_accrued'') \<and>
                        list_all (\<lambda>c. \<not> isna (r c) \<and> r c \<noteq> Num 0) controls) (rws study_frame))"
    by simp
  moreover have "length (rws (complete_cases (candidate_table study_frame ''tax_accrued''))) =
      length (column ''employees'' (complete_cases (candidate_table study_frame ''tax_accrued'')))"
    by (simp add: column_def)
  ultimately have "length (filter (\<lambda>r. r ''upe_name'' = Str ''Italy'' \<and>
                        \<not> isna (r ''profit_before_tax'') \<and> \<not> isna (r ''tax_accrued'') \<and>
                        list_all (\<lambda>c. \<not> isna (r c) \<and> r c \<noteq> Num 0) controls) (rws study_frame)) = 4"
    unfolding study_cc_columns by simp
  moreover from T study_frame_cols(1) study_all_cols
  have "prepare_data_and_analyze identity_imputer study_frame ''tax_accrued'' ''CC'' =
     standard_filters (complete_cases (candidate_table study_frame ''tax_accrued'')) ''tax_accrued''"
    by blast
  ultimately show ?thesis using study_cc_columns by blast
qed

end
